theory Spec2Isabelle
  imports Complex_Main "HOL-Library.Word"
begin

section \<open>JavaScript values shared by the modules\<close>

text \<open>
  A JavaScript string is a sequence of UTF-16 code units. ASCII text is written through
  \<open>js\<close>; the accented letters of the Portuguese literals are given by their code unit
  (for instance \<open>0xE3\<close> for a-tilde).
\<close>

type_synonym jsstring = "16 word list"

definition js :: "string \<Rightarrow> jsstring" where
  "js s = map of_char s"

text \<open>The coercion of an optional string to a boolean: \<open>undefined\<close> and the empty string
  are falsy.\<close>

fun truthy :: "jsstring option \<Rightarrow> bool" where
  "truthy None = False"
| "truthy (Some s) = (s \<noteq> [])"

text \<open>\<open>a || ''\<close> on an optional string.\<close>

fun orEmpty :: "jsstring option \<Rightarrow> jsstring" where
  "orEmpty None = []"
| "orEmpty (Some s) = s"

text \<open>\<open>xs || []\<close> on an optional array.\<close>

fun orNil :: "'a list option \<Rightarrow> 'a list" where
  "orNil None = []"
| "orNil (Some xs) = xs"

text \<open>\<open>String.prototype.includes\<close>: the pattern occurs as a contiguous run of code units.\<close>

fun startsWith :: "jsstring \<Rightarrow> jsstring \<Rightarrow> bool" where
  "startsWith s [] = True"
| "startsWith [] (p # ps) = False"
| "startsWith (c # cs) (p # ps) = (c = p \<and> startsWith cs ps)"

fun js_includes :: "jsstring \<Rightarrow> jsstring \<Rightarrow> bool" where
  "js_includes [] p = (p = [])"
| "js_includes (c # cs) p = (startsWith (c # cs) p \<or> js_includes cs p)"

text \<open>\<open>String.prototype.trim\<close> strips the ECMAScript white space and line terminator code
  units from both ends.\<close>

definition isWhiteSpace :: "16 word \<Rightarrow> bool" where
  "isWhiteSpace c =
     (c \<in> set [0x0009, 0x000A, 0x000B, 0x000C, 0x000D, 0x0020, 0x00A0, 0x1680,
                0x2028, 0x2029, 0x202F, 0x205F, 0x3000, 0xFEFF]
      \<or> (0x2000 \<le> c \<and> c \<le> 0x200A))"

definition trim :: "jsstring \<Rightarrow> jsstring" where
  "trim s = rev (dropWhile isWhiteSpace (rev (dropWhile isWhiteSpace s)))"

text \<open>\<open>Array.prototype.join\<close> on strings.\<close>

fun join :: "jsstring \<Rightarrow> jsstring list \<Rightarrow> jsstring" where
  "join sep [] = []"
| "join sep [x] = x"
| "join sep (x # y # ys) = x @ sep @ join sep (y # ys)"

text \<open>The decimal rendering of a non-negative integer inside a template literal.\<close>

function decimal :: "nat \<Rightarrow> jsstring" where
  "decimal n = (if n < 10 then [of_nat (48 + n)] else decimal (n div 10) @ [of_nat (48 + n mod 10)])"
  by pat_completeness auto
termination
  by (relation "measure (\<lambda>n. n)") auto

section \<open>shared/utils/retry.ts\<close>

datatype ErrorType = TEMPORARY | PERMANENT

text \<open>
  What a \<open>throw\<close> can carry: a \<open>ClassifiedError\<close> (message, type, original error), any other
  \<open>Error\<close> (message), a value that is not an \<open>Error\<close>, or \<open>undefined\<close>.
\<close>

datatype thrown =
    ClassifiedError jsstring ErrorType "thrown option"
  | Error jsstring
  | NonError jsstring
  | Undefined

text \<open>\<open>error instanceof ClassifiedError && error.type === ErrorType.PERMANENT\<close>, and the same
  test for \<open>TEMPORARY\<close>.\<close>

fun isPermanent :: "thrown \<Rightarrow> bool" where
  "isPermanent (ClassifiedError m t orig) = (t = PERMANENT)"
| "isPermanent _ = False"

fun isTemporary :: "thrown \<Rightarrow> bool" where
  "isTemporary (ClassifiedError m t orig) = (t = TEMPORARY)"
| "isTemporary _ = False"

text \<open>\<open>error.message\<close> when \<open>error instanceof Error\<close>.\<close>

fun errorMessage :: "thrown \<Rightarrow> jsstring option" where
  "errorMessage (ClassifiedError m t orig) = Some m"
| "errorMessage (Error m) = Some m"
| "errorMessage _ = None"

text \<open>
  The options of \<open>retryWithBackoff\<close>. The four numeric options are rationals, which every
  finite JavaScript number is; \<open>Infinity\<close> and \<open>NaN\<close> are outside this model. \<open>onRetry\<close> is the
  optional callback: applied to the attempt and the error it gives \<open>None\<close> when it returns
  and the value it throws otherwise.
\<close>

record RetryOptions =
  maxAttempts :: "rat option"
  initialDelay :: "rat option"
  maxDelay :: "rat option"
  backoffMultiplier :: "rat option"
  onRetry :: "(int \<Rightarrow> thrown \<Rightarrow> thrown option) option"

text \<open>The destructuring defaults of \<open>retryWithBackoff\<close>.\<close>

definition maxAttemptsOf :: "RetryOptions \<Rightarrow> rat" where
  "maxAttemptsOf options = (case maxAttempts options of None \<Rightarrow> 3 | Some m \<Rightarrow> m)"

definition initialDelayOf :: "RetryOptions \<Rightarrow> rat" where
  "initialDelayOf options = (case initialDelay options of None \<Rightarrow> 1000 | Some d \<Rightarrow> d)"

definition maxDelayOf :: "RetryOptions \<Rightarrow> rat" where
  "maxDelayOf options = (case maxDelay options of None \<Rightarrow> 10000 | Some d \<Rightarrow> d)"

definition backoffMultiplierOf :: "RetryOptions \<Rightarrow> rat" where
  "backoffMultiplierOf options = (case backoffMultiplier options of None \<Rightarrow> 2 | Some b \<Rightarrow> b)"

text \<open>
  The delay is \<open>Math.min(initialDelay * Math.pow(backoffMultiplier, attempt - 1), maxDelay)\<close>,
  a double that the JavaScript engine computes. The model does not evaluate it: a delay is
  that expression with its four operands (the exponent is \<open>attempt - 1\<close>), so no rounding is
  decided here. The delay has no part in the control flow of the loop.
\<close>

datatype delay = MinOfTimesPow (delay_initial: rat) (delay_base: rat) (delay_exponent: int) (delay_max: rat)

definition backoffDelay :: "rat \<Rightarrow> rat \<Rightarrow> rat \<Rightarrow> int \<Rightarrow> delay" where
  "backoffDelay initD mult maxD attempt = MinOfTimesPow initD mult (attempt - 1) maxD"

text \<open>
  One run of \<open>retryWithBackoff\<close>: what it returned or threw, how many times it invoked the
  operation, the delays it slept (in order) and the \<open>onRetry\<close> calls it made.
\<close>

record 'a retry_run =
  outcome :: "thrown + 'a"
  calls :: nat
  slept :: "delay list"
  retried :: "(int \<times> thrown) list"

text \<open>
  The operation is given by the outcome of its \<open>k\<close>-th invocation (counted from 0); \<open>n\<close> is the
  number of invocations made so far. The loop is
  \<open>for (attempt = 1; attempt <= maxAttempts; attempt++)\<close>; it carries \<open>lastError\<close>, which is
  thrown after the loop and is still \<open>undefined\<close> when the body never ran. The callback runs
  inside the \<open>catch\<close> block before the sleep, so what it throws leaves the function.
\<close>

function retry_loop ::
  "(nat \<Rightarrow> thrown + 'a) \<Rightarrow> rat \<Rightarrow> rat \<Rightarrow> rat \<Rightarrow> rat \<Rightarrow>
   (int \<Rightarrow> thrown \<Rightarrow> thrown option) option \<Rightarrow>
   int \<Rightarrow> thrown option \<Rightarrow> nat \<Rightarrow> delay list \<Rightarrow> (int \<times> thrown) list \<Rightarrow> 'a retry_run" where
  "retry_loop fn maxA initD maxD mult cb attempt lastError n sl rl =
     (if of_int attempt \<le> maxA then
        (case fn n of
           Inr v \<Rightarrow> \<lparr>outcome = Inr v, calls = Suc n, slept = sl, retried = rl\<rparr>
         | Inl e \<Rightarrow>
             if isPermanent e then
               \<lparr>outcome = Inl e, calls = Suc n, slept = sl, retried = rl\<rparr>
             else if of_int attempt = maxA then
               \<lparr>outcome = Inl e, calls = Suc n, slept = sl, retried = rl\<rparr>
             else
               (case cb of
                  None \<Rightarrow>
                    retry_loop fn maxA initD maxD mult cb (attempt + 1) (Some e) (Suc n)
                      (sl @ [backoffDelay initD mult maxD attempt]) rl
                | Some f \<Rightarrow>
                    (case f attempt e of
                       Some x \<Rightarrow>
                         \<lparr>outcome = Inl x, calls = Suc n, slept = sl,
                          retried = rl @ [(attempt, e)]\<rparr>
                     | None \<Rightarrow>
                         retry_loop fn maxA initD maxD mult cb (attempt + 1) (Some e) (Suc n)
                           (sl @ [backoffDelay initD mult maxD attempt])
                           (rl @ [(attempt, e)]))))
      else
        \<lparr>outcome = Inl (case lastError of None \<Rightarrow> Undefined | Some e \<Rightarrow> e),
         calls = n, slept = sl, retried = rl\<rparr>)"
  by pat_completeness auto
termination
  by (relation "measure (\<lambda>(fn, maxA, initD, maxD, mult, cb, attempt, rest). nat (\<lfloor>maxA\<rfloor> + 1 - attempt))")
     (auto simp: le_floor_iff)

declare retry_loop.simps [simp del]

text \<open>A callback that never throws.\<close>

definition quiet :: "(int \<Rightarrow> thrown \<Rightarrow> thrown option) option \<Rightarrow> bool" where
  "quiet cb = (case cb of None \<Rightarrow> True | Some f \<Rightarrow> \<forall>attempt e. f attempt e = None)"

definition retryWithBackoff :: "(nat \<Rightarrow> thrown + 'a) \<Rightarrow> RetryOptions \<Rightarrow> 'a retry_run" where
  "retryWithBackoff fn options =
     retry_loop fn (maxAttemptsOf options) (initialDelayOf options) (maxDelayOf options)
       (backoffMultiplierOf options) (onRetry options) 1 None 0 [] []"

definition classifyHttpError :: "nat \<Rightarrow> jsstring \<Rightarrow> thrown" where
  "classifyHttpError statusCode message =
     (if statusCode = 429 \<or> statusCode = 500 \<or> statusCode = 502 \<or> statusCode = 503
         \<or> statusCode = 504 then ClassifiedError message TEMPORARY None
      else if statusCode = 401 \<or> statusCode = 403 then ClassifiedError message TEMPORARY None
      else if statusCode = 400 \<or> statusCode = 404 \<or> statusCode = 422
        then ClassifiedError message PERMANENT None
      else ClassifiedError message TEMPORARY None)"

definition classifyNetworkError :: "thrown \<Rightarrow> thrown" where
  "classifyNetworkError error =
     ClassifiedError (js ''Erro de rede: '' @ orEmpty (errorMessage error)) TEMPORARY (Some error)"

section \<open>domain/types/TrackingTypes.ts\<close>

text \<open>The structured postal address of a unit. The carrier's \<open>endereco\<close> object and the
  event's \<open>unitAddress\<close> have the same six optional fields, and \<open>trackCorreios\<close> copies one
  into the other field by field, so one record serves both.\<close>

record Endereco =
  cep :: "jsstring option"
  logradouro :: "jsstring option"
  numero :: "jsstring option"
  bairro :: "jsstring option"
  cidade :: "jsstring option"
  uf :: "jsstring option"

record TrackingEvent =
  date :: jsstring
  location :: jsstring
  status :: jsstring
  description :: jsstring
  detail :: "jsstring option"
  unitType :: "jsstring option"
  originUnit :: "jsstring option"
  destinationUnit :: "jsstring option"
  unitAddress :: "Endereco option"

subsection \<open>The \<open>TrackingStatus\<close> enumeration (string-valued)\<close>

definition ETIQUETA_EMITIDA :: jsstring where
  "ETIQUETA_EMITIDA = js ''Etiqueta emitida''"

definition ETIQUETA_CANCELADA :: jsstring where
  "ETIQUETA_CANCELADA = js ''Etiqueta cancelada pelo emissor''"

definition ETIQUETA_EXPIRADA :: jsstring where
  "ETIQUETA_EXPIRADA = js ''Etiqueta expirada''"

definition CARTEIRO_SAIU_COLETA :: jsstring where
  "CARTEIRO_SAIU_COLETA = js ''Carteiro saiu para coleta do objeto''"

definition OBJETO_COLETADO :: jsstring where
  "OBJETO_COLETADO = js ''Objeto coletado''"

definition POSTADO :: jsstring where
  "POSTADO = js ''Objeto postado''"

definition POSTADO_APOS_HORARIO_LIMITE :: jsstring where
  "POSTADO_APOS_HORARIO_LIMITE = js ''Objeto postado ap'' @ [0xF3] @ js ''s o hor'' @ [0xE1] @ js ''rio limite da unidade''"

definition EM_TRANSITO :: jsstring where
  "EM_TRANSITO = js ''Objeto em transfer'' @ [0xEA] @ js ''ncia - por favor aguarde''"

definition CORRECAO_ROTA :: jsstring where
  "CORRECAO_ROTA = js ''Objeto em corre'' @ [0xE7] @ [0xE3] @ js ''o de rota''"

definition OBJETO_NAO_CHEGOU_UNIDADE :: jsstring where
  "OBJETO_NAO_CHEGOU_UNIDADE = js ''Objeto ainda n'' @ [0xE3] @ js ''o chegou '' @ [0xE0] @ js '' unidade''"

definition SAIU_PARA_ENTREGA :: jsstring where
  "SAIU_PARA_ENTREGA = js ''Objeto saiu para entrega ao destinat'' @ [0xE1] @ js ''rio''"

definition SAIU_PARA_ENTREGA_REMETENTE :: jsstring where
  "SAIU_PARA_ENTREGA_REMETENTE = js ''Objeto saiu para entrega ao remetente''"

definition AGUARDANDO_RETIRADA :: jsstring where
  "AGUARDANDO_RETIRADA = js ''Objeto aguardando retirada no endere'' @ [0xE7] @ js ''o indicado''"

definition ENCAMINHADO_RETIRADA :: jsstring where
  "ENCAMINHADO_RETIRADA = js ''Objeto encaminhado para retirada no endere'' @ [0xE7] @ js ''o indicado''"

definition DIRECIONADO_UNIDADE :: jsstring where
  "DIRECIONADO_UNIDADE = js ''Direcionado para entrega em unidade dos Correios a pedido do cliente''"

definition NAO_ENTREGUE :: jsstring where
  "NAO_ENTREGUE = js ''Objeto n'' @ [0xE3] @ js ''o entregue''"

definition NAO_ENTREGUE_ENDERECO_INCORRETO :: jsstring where
  "NAO_ENTREGUE_ENDERECO_INCORRETO = js ''Objeto n'' @ [0xE3] @ js ''o entregue - endere'' @ [0xE7] @ js ''o incorreto''"

definition NAO_ENTREGUE_ENDERECO_INSUFICIENTE :: jsstring where
  "NAO_ENTREGUE_ENDERECO_INSUFICIENTE = js ''Objeto n'' @ [0xE3] @ js ''o entregue - endere'' @ [0xE7] @ js ''o insuficiente''"

definition NAO_ENTREGUE_CARTEIRO_NAO_ATENDIDO :: jsstring where
  "NAO_ENTREGUE_CARTEIRO_NAO_ATENDIDO = js ''Objeto n'' @ [0xE3] @ js ''o entregue - carteiro n'' @ [0xE3] @ js ''o atendido''"

definition NAO_ENTREGUE_PRAZO_ENCERRADO :: jsstring where
  "NAO_ENTREGUE_PRAZO_ENCERRADO = js ''Objeto n'' @ [0xE3] @ js ''o entregue - prazo de retirada encerrado''"

definition TENTATIVA_ENTREGA_NAO_EFETUADA :: jsstring where
  "TENTATIVA_ENTREGA_NAO_EFETUADA = js ''Tentativa de entrega n'' @ [0xE3] @ js ''o efetuada''"

definition INCONSISTENCIAS_ENDERECAMENTO :: jsstring where
  "INCONSISTENCIAS_ENDERECAMENTO = js ''Inconsist'' @ [0xEA] @ js ''ncias no endere'' @ [0xE7] @ js ''amento do objeto''"

definition DESCONSIDERAR_INFORMACAO :: jsstring where
  "DESCONSIDERAR_INFORMACAO = js ''Favor desconsiderar a informa'' @ [0xE7] @ [0xE3] @ js ''o anterior''"

definition SUSPENSAO_ENTREGA :: jsstring where
  "SUSPENSAO_ENTREGA = js ''Solicita'' @ [0xE7] @ [0xE3] @ js ''o de suspens'' @ [0xE3] @ js ''o de entrega ao destinat'' @ [0xE1] @ js ''rio''"

definition ERRO_CONSULTA :: jsstring where
  "ERRO_CONSULTA = js ''Erro na consulta''"

definition ENTREGA_CANCELADA :: jsstring where
  "ENTREGA_CANCELADA = js ''Sa'' @ [0xED] @ js ''da para entrega cancelada''"

definition CANCELADO :: jsstring where
  "CANCELADO = js ''Cancelado''"

definition DEVOLVIDO :: jsstring where
  "DEVOLVIDO = js ''Devolvido''"

definition OBJETO_SERA_DEVOLVIDO :: jsstring where
  "OBJETO_SERA_DEVOLVIDO = js ''Objeto ser'' @ [0xE1] @ js '' devolvido por solicita'' @ [0xE7] @ [0xE3] @ js ''o do contratante/remetente''"

definition ENTREGUE :: jsstring where
  "ENTREGUE = js ''Objeto entregue ao destinat'' @ [0xE1] @ js ''rio''"

definition ENTREGUE_REMETENTE :: jsstring where
  "ENTREGUE_REMETENTE = js ''Objeto entregue ao remetente''"

definition ENTREGUE_CAIXA_INTELIGENTE :: jsstring where
  "ENTREGUE_CAIXA_INTELIGENTE = js ''Objeto entregue na Caixa de Correios Inteligente''"

subsection \<open>The \<open>DeliveryChannel\<close> enumeration\<close>

definition DELIVERY :: jsstring where
  "DELIVERY = js ''delivery''"

definition PICKUP_IN_POINT :: jsstring where
  "PICKUP_IN_POINT = js ''pickup-in-point''"

section \<open>services/correios.ts\<close>

record Unidade =
  tipo :: "jsstring option"
  endereco :: "Endereco option"

record Evento =
  descricao :: jsstring
  dtHrCriado :: jsstring
  detalhe :: "jsstring option"
  unidade :: "Unidade option"
  unidadeDestino :: "Unidade option"

record Objeto =
  codObjeto :: jsstring
  dtPrevista :: "jsstring option"
  mensagem :: "jsstring option"
  eventos :: "Evento list option"

record CorreiosApiResponse =
  versao :: jsstring
  quantidade :: int
  objetos :: "Objeto list option"
  tipoResultado :: jsstring

text \<open>The \<open>CorreiosResponse\<close> that \<open>trackCorreios\<close> returns; its fields \<open>status\<close>, \<open>events\<close>
  and \<open>dtPrevista\<close> carry the prefix \<open>res_\<close> here.\<close>

record CorreiosResponse =
  res_status :: jsstring
  res_events :: "TrackingEvent list"
  res_dtPrevista :: "jsstring option"

text \<open>
  What one invocation of \<open>fetchTrackingData\<close> meets: the result of
  \<open>correiosTokenService.getValidToken()\<close> and the result of \<open>fetch\<close>; a response has its
  status code and the results of reading its body as text and as JSON.
\<close>

record HttpResponse =
  http_status :: nat
  http_text :: "thrown + jsstring"
  http_json :: "thrown + CorreiosApiResponse"

definition http_ok :: "HttpResponse \<Rightarrow> bool" where
  "http_ok r = (200 \<le> http_status r \<and> http_status r \<le> 299)"

record Attempt =
  tokenResult :: "thrown + jsstring"
  fetchResult :: "thrown + HttpResponse"

text \<open>The \<open>try\<close> block of \<open>fetchTrackingData\<close>.\<close>

definition fetchTrackingData_try :: "Attempt \<Rightarrow> thrown + CorreiosApiResponse" where
  "fetchTrackingData_try a =
     (case tokenResult a of
        Inl e \<Rightarrow> Inl e
      | Inr token \<Rightarrow>
          (case fetchResult a of
             Inl e \<Rightarrow> Inl e
           | Inr trackingResponse \<Rightarrow>
               if \<not> http_ok trackingResponse then
                 (case http_text trackingResponse of
                    Inl e \<Rightarrow> Inl e
                  | Inr errorText \<Rightarrow>
                      Inl (classifyHttpError (http_status trackingResponse)
                             (js ''Erro ao consultar rastreamento: ''
                              @ decimal (http_status trackingResponse) @ js '' - ''
                              @ errorText)))
               else http_json trackingResponse))"

text \<open>Its \<open>catch\<close> block: a \<open>ClassifiedError\<close> is rethrown, any other \<open>Error\<close> is classified
  as a network error, anything else is rethrown.\<close>

fun fetchTrackingData_catch :: "thrown \<Rightarrow> thrown" where
  "fetchTrackingData_catch (ClassifiedError m t orig) = ClassifiedError m t orig"
| "fetchTrackingData_catch (Error m) = classifyNetworkError (Error m)"
| "fetchTrackingData_catch e = e"

text \<open>\<open>world code k\<close> is what the \<open>k\<close>-th request for \<open>code\<close> meets.\<close>

definition fetchTrackingData :: "(jsstring \<Rightarrow> nat \<Rightarrow> Attempt) \<Rightarrow> jsstring \<Rightarrow> nat \<Rightarrow> thrown + CorreiosApiResponse" where
  "fetchTrackingData world code k =
     (case fetchTrackingData_try (world code k) of
        Inl e \<Rightarrow> Inl (fetchTrackingData_catch e)
      | Inr v \<Rightarrow> Inr v)"

text \<open>The location of an event: city and state when both are present, else whichever is.\<close>

definition eventLocation :: "Evento \<Rightarrow> jsstring" where
  "eventLocation evento =
     (case unidade evento of
        None \<Rightarrow> js ''Local n'' @ [0xE3] @ js ''o informado''
      | Some u \<Rightarrow>
          (case endereco u of
             None \<Rightarrow> js ''Local n'' @ [0xE3] @ js ''o informado''
           | Some a \<Rightarrow>
               if truthy (cidade a) \<and> truthy (uf a) then orEmpty (cidade a) @ js ''/'' @ orEmpty (uf a)
               else if truthy (uf a) then orEmpty (uf a)
               else if truthy (cidade a) then orEmpty (cidade a)
               else js ''Local n'' @ [0xE3] @ js ''o informado''))"

text \<open>The descriptor of an origin or destination unit: \<open>partes.filter(Boolean).join(', ')\<close>.\<close>

definition unitDescriptor :: "Unidade \<Rightarrow> jsstring" where
  "unitDescriptor u =
     join (js '', '')
       (map orEmpty (filter truthy
          (tipo u #
           (case endereco u of
              None \<Rightarrow> []
            | Some a \<Rightarrow>
                if truthy (cidade a) \<and> truthy (uf a)
                  then [Some (orEmpty (cidade a) @ js '' - '' @ orEmpty (uf a))]
                else if truthy (cidade a) then [cidade a]
                else if truthy (uf a) then [uf a]
                else []))))"

definition toTrackingEvent :: "Evento \<Rightarrow> TrackingEvent" where
  "toTrackingEvent evento =
     \<lparr>date = dtHrCriado evento,
      location = eventLocation evento,
      status = descricao evento,
      description = descricao evento,
      detail = detalhe evento,
      unitType = (case unidade evento of None \<Rightarrow> None | Some u \<Rightarrow> tipo u),
      originUnit = map_option unitDescriptor (unidade evento),
      destinationUnit = map_option unitDescriptor (unidadeDestino evento),
      unitAddress = (case unidade evento of None \<Rightarrow> None | Some u \<Rightarrow> endereco u)\<rparr>"

text \<open>The pattern of the generic in-transit branch, which is shorter than the status it sets.\<close>

definition EM_TRANSFERENCIA :: jsstring where
  "EM_TRANSFERENCIA = js ''Objeto em transfer'' @ [0xEA] @ js ''ncia''"

text \<open>The chain of \<open>description.includes\<close> tests on the most recent event; the status
  starts as the default and stays so when no test succeeds.\<close>

definition determineStatus :: "jsstring \<Rightarrow> jsstring" where
  "determineStatus descr =
     (if js_includes descr ENTREGUE then ENTREGUE
     else if js_includes descr ENTREGUE_REMETENTE then ENTREGUE_REMETENTE
     else if js_includes descr ENTREGUE_CAIXA_INTELIGENTE then ENTREGUE_CAIXA_INTELIGENTE
     else if js_includes descr NAO_ENTREGUE_PRAZO_ENCERRADO then NAO_ENTREGUE_PRAZO_ENCERRADO
     else if js_includes descr NAO_ENTREGUE_CARTEIRO_NAO_ATENDIDO then NAO_ENTREGUE_CARTEIRO_NAO_ATENDIDO
     else if js_includes descr NAO_ENTREGUE_ENDERECO_INSUFICIENTE then NAO_ENTREGUE_ENDERECO_INSUFICIENTE
     else if js_includes descr NAO_ENTREGUE_ENDERECO_INCORRETO then NAO_ENTREGUE_ENDERECO_INCORRETO
     else if js_includes descr TENTATIVA_ENTREGA_NAO_EFETUADA then TENTATIVA_ENTREGA_NAO_EFETUADA
     else if js_includes descr NAO_ENTREGUE then NAO_ENTREGUE
     else if js_includes descr SAIU_PARA_ENTREGA then SAIU_PARA_ENTREGA
     else if js_includes descr SAIU_PARA_ENTREGA_REMETENTE then SAIU_PARA_ENTREGA_REMETENTE
     else if js_includes descr ENTREGA_CANCELADA then ENTREGA_CANCELADA
     else if js_includes descr ENCAMINHADO_RETIRADA then ENCAMINHADO_RETIRADA
     else if js_includes descr AGUARDANDO_RETIRADA then AGUARDANDO_RETIRADA
     else if js_includes descr DIRECIONADO_UNIDADE then DIRECIONADO_UNIDADE
     else if js_includes descr CORRECAO_ROTA then CORRECAO_ROTA
     else if js_includes descr OBJETO_NAO_CHEGOU_UNIDADE then OBJETO_NAO_CHEGOU_UNIDADE
     else if js_includes descr EM_TRANSFERENCIA then EM_TRANSITO
     else if js_includes descr POSTADO_APOS_HORARIO_LIMITE then POSTADO_APOS_HORARIO_LIMITE
     else if js_includes descr POSTADO then POSTADO
     else if js_includes descr OBJETO_COLETADO then OBJETO_COLETADO
     else if js_includes descr CARTEIRO_SAIU_COLETA then CARTEIRO_SAIU_COLETA
     else if js_includes descr ETIQUETA_CANCELADA then ETIQUETA_CANCELADA
     else if js_includes descr ETIQUETA_EXPIRADA then ETIQUETA_EXPIRADA
     else if js_includes descr ETIQUETA_EMITIDA then ETIQUETA_EMITIDA
     else if js_includes descr INCONSISTENCIAS_ENDERECAMENTO then INCONSISTENCIAS_ENDERECAMENTO
     else if js_includes descr DESCONSIDERAR_INFORMACAO then DESCONSIDERAR_INFORMACAO
     else if js_includes descr SUSPENSAO_ENTREGA then SUSPENSAO_ENTREGA
     else if js_includes descr OBJETO_SERA_DEVOLVIDO then OBJETO_SERA_DEVOLVIDO
     else if js_includes descr CANCELADO then CANCELADO
     else if js_includes descr DEVOLVIDO then DEVOLVIDO
     else EM_TRANSITO)"

text \<open>The same chain as a table of (pattern, status) rules, in the order of the tests.\<close>

definition statusRules :: "(jsstring \<times> jsstring) list" where
  "statusRules =
     [(ENTREGUE, ENTREGUE),
      (ENTREGUE_REMETENTE, ENTREGUE_REMETENTE),
      (ENTREGUE_CAIXA_INTELIGENTE, ENTREGUE_CAIXA_INTELIGENTE),
      (NAO_ENTREGUE_PRAZO_ENCERRADO, NAO_ENTREGUE_PRAZO_ENCERRADO),
      (NAO_ENTREGUE_CARTEIRO_NAO_ATENDIDO, NAO_ENTREGUE_CARTEIRO_NAO_ATENDIDO),
      (NAO_ENTREGUE_ENDERECO_INSUFICIENTE, NAO_ENTREGUE_ENDERECO_INSUFICIENTE),
      (NAO_ENTREGUE_ENDERECO_INCORRETO, NAO_ENTREGUE_ENDERECO_INCORRETO),
      (TENTATIVA_ENTREGA_NAO_EFETUADA, TENTATIVA_ENTREGA_NAO_EFETUADA),
      (NAO_ENTREGUE, NAO_ENTREGUE),
      (SAIU_PARA_ENTREGA, SAIU_PARA_ENTREGA),
      (SAIU_PARA_ENTREGA_REMETENTE, SAIU_PARA_ENTREGA_REMETENTE),
      (ENTREGA_CANCELADA, ENTREGA_CANCELADA),
      (ENCAMINHADO_RETIRADA, ENCAMINHADO_RETIRADA),
      (AGUARDANDO_RETIRADA, AGUARDANDO_RETIRADA),
      (DIRECIONADO_UNIDADE, DIRECIONADO_UNIDADE),
      (CORRECAO_ROTA, CORRECAO_ROTA),
      (OBJETO_NAO_CHEGOU_UNIDADE, OBJETO_NAO_CHEGOU_UNIDADE),
      (EM_TRANSFERENCIA, EM_TRANSITO),
      (POSTADO_APOS_HORARIO_LIMITE, POSTADO_APOS_HORARIO_LIMITE),
      (POSTADO, POSTADO),
      (OBJETO_COLETADO, OBJETO_COLETADO),
      (CARTEIRO_SAIU_COLETA, CARTEIRO_SAIU_COLETA),
      (ETIQUETA_CANCELADA, ETIQUETA_CANCELADA),
      (ETIQUETA_EXPIRADA, ETIQUETA_EXPIRADA),
      (ETIQUETA_EMITIDA, ETIQUETA_EMITIDA),
      (INCONSISTENCIAS_ENDERECAMENTO, INCONSISTENCIAS_ENDERECAMENTO),
      (DESCONSIDERAR_INFORMACAO, DESCONSIDERAR_INFORMACAO),
      (SUSPENSAO_ENTREGA, SUSPENSAO_ENTREGA),
      (OBJETO_SERA_DEVOLVIDO, OBJETO_SERA_DEVOLVIDO),
      (CANCELADO, CANCELADO),
      (DEVOLVIDO, DEVOLVIDO)]"

definition firstMatch :: "jsstring \<Rightarrow> jsstring" where
  "firstMatch descr =
     (case find (\<lambda>rule. js_includes descr (fst rule)) statusRules of
        None \<Rightarrow> EM_TRANSITO
      | Some rule \<Rightarrow> snd rule)"

text \<open>A list of patterns runs from specific to general when no pattern occurs inside a
  later one: of two patterns, the one that contains the other is tested first.\<close>

fun specificFirst :: "jsstring list \<Rightarrow> bool" where
  "specificFirst [] = True"
| "specificFirst (p # ps) = ((\<forall>q \<in> set ps. \<not> js_includes q p) \<and> specificFirst ps)"

definition OBJETO_NAO_ENCONTRADO :: jsstring where
  "OBJETO_NAO_ENCONTRADO = js ''Objeto n'' @ [0xE3] @ js ''o encontrado''"

text \<open>The body of the \<open>try\<close> block of \<open>trackCorreios\<close> after the lookup has returned;
  \<open>now\<close> is \<open>new Date().toISOString()\<close>.\<close>

definition trackingResult :: "jsstring \<Rightarrow> CorreiosApiResponse \<Rightarrow> thrown + CorreiosResponse" where
  "trackingResult now trackingData =
     (case objetos trackingData of
        None \<Rightarrow> Inl (Error OBJETO_NAO_ENCONTRADO)
      | Some [] \<Rightarrow> Inl (Error OBJETO_NAO_ENCONTRADO)
      | Some (objeto # rest) \<Rightarrow>
          if truthy (mensagem objeto) then
            Inr \<lparr>res_status = OBJETO_NAO_ENCONTRADO,
                 res_events =
                   [\<lparr>date = now, location = js ''Correios'',
                     status = js ''N'' @ [0xE3] @ js ''o encontrado'',
                     description = orEmpty (mensagem objeto),
                     detail = None, unitType = None, originUnit = None,
                     destinationUnit = None, unitAddress = None\<rparr>],
                 res_dtPrevista = None\<rparr>
          else
            (case orNil (eventos objeto) of
               [] \<Rightarrow> Inr \<lparr>res_status = ETIQUETA_EMITIDA, res_events = [],
                         res_dtPrevista = dtPrevista objeto\<rparr>
             | evento # others \<Rightarrow>
                 Inr \<lparr>res_status = determineStatus (description (toTrackingEvent evento)),
                      res_events = map toTrackingEvent (evento # others),
                      res_dtPrevista = dtPrevista objeto\<rparr>))"

text \<open>The \<open>catch\<close> block of \<open>trackCorreios\<close>: a temporary error is rethrown, anything else
  becomes the lookup-error result.\<close>

definition lookupFailure :: "jsstring \<Rightarrow> thrown \<Rightarrow> thrown + CorreiosResponse" where
  "lookupFailure now error =
     (if isTemporary error then Inl error
      else
        Inr \<lparr>res_status = ERRO_CONSULTA,
             res_events =
               [\<lparr>date = now, location = js ''Sistema'', status = js ''Erro'',
                 description =
                   js ''Erro ao consultar os Correios: ''
                   @ (case errorMessage error of Some m \<Rightarrow> m | None \<Rightarrow> js ''Erro desconhecido'')
                   @ js ''. Verifique o c'' @ [0xF3] @ js ''digo de rastreamento.'',
                 detail = None, unitType = None, originUnit = None,
                 destinationUnit = None, unitAddress = None\<rparr>],
             res_dtPrevista = None\<rparr>)"

text \<open>The options \<open>trackCorreios\<close> passes; its callback only logs and does not throw.\<close>

definition trackCorreios_options :: RetryOptions where
  "trackCorreios_options =
     \<lparr>maxAttempts = Some 3, initialDelay = Some 1000, maxDelay = None,
      backoffMultiplier = Some 2, onRetry = Some (\<lambda>attempt error. None)\<rparr>"

text \<open>The lookup with retries, as \<open>trackCorreios\<close> starts it.\<close>

definition lookup :: "(jsstring \<Rightarrow> nat \<Rightarrow> Attempt) \<Rightarrow> jsstring \<Rightarrow> CorreiosApiResponse retry_run" where
  "lookup world code = retryWithBackoff (fetchTrackingData world code) trackCorreios_options"

definition trackCorreios :: "(jsstring \<Rightarrow> nat \<Rightarrow> Attempt) \<Rightarrow> jsstring \<Rightarrow> jsstring \<Rightarrow> thrown + CorreiosResponse" where
  "trackCorreios world now code =
     (case outcome (lookup world code) of
        Inl e \<Rightarrow> lookupFailure now e
      | Inr trackingData \<Rightarrow>
          (case trackingResult now trackingData of
             Inl e \<Rightarrow> lookupFailure now e
           | Inr r \<Rightarrow> Inr r))"

section \<open>shared/utils/eventComparator.ts\<close>

text \<open>
  \<open>new Date(event.date).toISOString()\<close> is taken as a parameter \<open>toISOString\<close>: it gives
  the normalised date, or \<open>None\<close> where the date is invalid and the call throws a
  \<open>RangeError\<close>. The date is normalised first, so the error precedes everything else.
\<close>

definition createEventSignature :: "(jsstring \<Rightarrow> jsstring option) \<Rightarrow> TrackingEvent \<Rightarrow> thrown + jsstring" where
  "createEventSignature toISOString event =
     (case toISOString (date event) of
        None \<Rightarrow> Inl (Error (js ''Invalid time value''))
      | Some normalizedDate \<Rightarrow>
          Inr (trim (description event) @ js ''|'' @ normalizedDate @ js ''|''
               @ trim (location event) @ js ''|''
               @ trim (orEmpty (detail event)) @ js ''|''
               @ trim (orEmpty (unitType event)) @ js ''|''
               @ trim (orEmpty (originUnit event)) @ js ''|''
               @ trim (orEmpty (destinationUnit event))))"

text \<open>\<open>oldEvents.map(event => createEventSignature(event))\<close>: the first error ends it.\<close>

fun eventSignatures :: "(jsstring \<Rightarrow> jsstring option) \<Rightarrow> TrackingEvent list \<Rightarrow> thrown + jsstring list" where
  "eventSignatures toISOString [] = Inr []"
| "eventSignatures toISOString (e # es) =
     (case createEventSignature toISOString e of
        Inl x \<Rightarrow> Inl x
      | Inr s \<Rightarrow>
          (case eventSignatures toISOString es of
             Inl x \<Rightarrow> Inl x
           | Inr ss \<Rightarrow> Inr (s # ss)))"

text \<open>The \<open>for\<close> loop over the new events, returning at the first signature the set lacks.\<close>

fun anyNewSignature :: "(jsstring \<Rightarrow> jsstring option) \<Rightarrow> jsstring list \<Rightarrow> TrackingEvent list \<Rightarrow> thrown + bool" where
  "anyNewSignature toISOString oldSigs [] = Inr False"
| "anyNewSignature toISOString oldSigs (e # es) =
     (case createEventSignature toISOString e of
        Inl x \<Rightarrow> Inl x
      | Inr s \<Rightarrow>
          if s \<notin> set oldSigs then Inr True
          else anyNewSignature toISOString oldSigs es)"

definition hasNewEvents :: "(jsstring \<Rightarrow> jsstring option) \<Rightarrow> TrackingEvent list \<Rightarrow> TrackingEvent list \<Rightarrow> thrown + bool" where
  "hasNewEvents toISOString oldEvents newEvents =
     (if length oldEvents \<noteq> length newEvents then Inr True
      else if length oldEvents = 0 \<and> length newEvents = 0 then Inr False
      else
        (case eventSignatures toISOString oldEvents of
           Inl x \<Rightarrow> Inl x
         | Inr oldSigs \<Rightarrow> anyNewSignature toISOString oldSigs newEvents))"

text \<open>
  The seven fields that the signature is described to be built from, in its order: the
  description trimmed, the date normalised to an ISO string, and the location, detail, unit
  type, origin unit and destination unit, trimmed, with the empty string for an absent one.
  There are none when the date does not normalise.
\<close>

definition signatureFields :: "(jsstring \<Rightarrow> jsstring option) \<Rightarrow> TrackingEvent \<Rightarrow> jsstring list option" where
  "signatureFields toISOString event =
     (case toISOString (date event) of
        None \<Rightarrow> None
      | Some normalizedDate \<Rightarrow>
          Some [trim (description event), normalizedDate, trim (location event),
                trim (orEmpty (detail event)), trim (orEmpty (unitType event)),
                trim (orEmpty (originUnit event)), trim (orEmpty (destinationUnit event))])"

text \<open>Two events agree on the seven normalised fields.\<close>

definition sameSignatureFields :: "(jsstring \<Rightarrow> jsstring option) \<Rightarrow> TrackingEvent \<Rightarrow> TrackingEvent \<Rightarrow> bool" where
  "sameSignatureFields toISOString a b =
     (trim (description a) = trim (description b)
      \<and> toISOString (date a) = toISOString (date b)
      \<and> trim (location a) = trim (location b)
      \<and> trim (orEmpty (detail a)) = trim (orEmpty (detail b))
      \<and> trim (orEmpty (unitType a)) = trim (orEmpty (unitType b))
      \<and> trim (orEmpty (originUnit a)) = trim (orEmpty (originUnit b))
      \<and> trim (orEmpty (destinationUnit a)) = trim (orEmpty (destinationUnit b)))"

section \<open>domain/entities/Tracking.ts and domain/events/TrackingStatusChangedEvent.ts\<close>

record Product =
  product_name :: jsstring

text \<open>The fields of \<open>TrackingEntity\<close> that the modelled code reads or writes (\<open>id\<close> is
  \<open>tracking_id\<close> here); the order, CPF, contact, category, quantity, creation date and
  sender are carried by the source and never inspected.\<close>

record TrackingEntity =
  tracking_id :: "jsstring option"
  name :: jsstring
  email :: jsstring
  trackingCode :: jsstring
  currentStatus :: jsstring
  deliveryChannel :: jsstring
  products :: "Product list"
  events :: "TrackingEvent list"
  updatedAt :: "jsstring option"
  dtExpected :: "jsstring option"

definition hasStatusChanged :: "TrackingEntity \<Rightarrow> jsstring \<Rightarrow> bool" where
  "hasStatusChanged tracking status' = (currentStatus tracking \<noteq> status')"

text \<open>The plain \<open>TrackingStatusChangedEvent\<close>; the fields it shares by name with the records
  above carry the prefix \<open>ev_\<close>.\<close>

record TrackingStatusChangedEvent =
  trackingId :: jsstring
  ev_trackingCode :: jsstring
  customerName :: jsstring
  customerEmail :: jsstring
  ev_products :: "jsstring list"
  previousStatus :: jsstring
  newStatus :: jsstring
  ev_deliveryChannel :: jsstring
  timestamp :: jsstring
  ev_detail :: "jsstring option"
  ev_originUnit :: "jsstring option"
  ev_destinationUnit :: "jsstring option"
  ev_unitAddress :: "jsstring option"
  unitCep :: "jsstring option"

text \<open>\<open>addressParts.filter(Boolean).join('\n')\<close>.\<close>

definition formatAddress :: "Endereco \<Rightarrow> jsstring" where
  "formatAddress addr =
     join [0x0A]
       (map orEmpty (filter truthy
          [if truthy (logradouro addr) \<and> truthy (numero addr)
             then Some (orEmpty (logradouro addr) @ js '', '' @ orEmpty (numero addr))
             else logradouro addr,
           bairro addr,
           if truthy (cidade addr) \<and> truthy (uf addr)
             then Some (orEmpty (cidade addr) @ js '' - '' @ orEmpty (uf addr))
             else if truthy (cidade addr) then cidade addr else uf addr]))"

definition productNames :: "Product list \<Rightarrow> jsstring list" where
  "productNames ps =
     filter (\<lambda>s. s \<noteq> [])
       (map (\<lambda>p. if product_name p \<noteq> [] then product_name p else js ''[object Object]'') ps)"

definition fromTracking ::
  "jsstring \<Rightarrow> TrackingEntity \<Rightarrow> jsstring \<Rightarrow> TrackingEvent list option \<Rightarrow> thrown + TrackingStatusChangedEvent" where
  "fromTracking now tracking status' newEvents =
     (case tracking_id tracking of
        None \<Rightarrow> Inl (Error (js ''Tracking deve ter um ID para criar evento de mudan'' @ [0xE7] @ js ''a de status''))
      | Some tid \<Rightarrow>
          if tid = [] then Inl (Error (js ''Tracking deve ter um ID para criar evento de mudan'' @ [0xE7] @ js ''a de status''))
          else
            (let latestEvents = (case newEvents of Some es \<Rightarrow> es | None \<Rightarrow> events tracking);
                 lastEvent = (case latestEvents of [] \<Rightarrow> None | e # es \<Rightarrow> Some e);
                 addr = (case lastEvent of None \<Rightarrow> None | Some e \<Rightarrow> unitAddress e);
                 productsArray = productNames (products tracking)
             in Inr \<lparr>trackingId = tid,
                     ev_trackingCode = trackingCode tracking,
                     customerName = name tracking,
                     customerEmail = email tracking,
                     ev_products = (if length productsArray > 0 then productsArray else [js ''N/A'']),
                     previousStatus = currentStatus tracking,
                     newStatus = status',
                     ev_deliveryChannel = deliveryChannel tracking,
                     timestamp = now,
                     ev_detail = (case lastEvent of None \<Rightarrow> None | Some e \<Rightarrow> detail e),
                     ev_originUnit = (case lastEvent of None \<Rightarrow> None | Some e \<Rightarrow> originUnit e),
                     ev_destinationUnit = (case lastEvent of None \<Rightarrow> None | Some e \<Rightarrow> destinationUnit e),
                     ev_unitAddress = map_option formatAddress addr,
                     unitCep = (case addr of None \<Rightarrow> None | Some a \<Rightarrow> cep a)\<rparr>))"

section \<open>infrastructure/services/EmailEventPublisher.ts\<close>

definition SILENT_STATUSES :: "jsstring list" where
  "SILENT_STATUSES =
     [DESCONSIDERAR_INFORMACAO, OBJETO_SERA_DEVOLVIDO, ETIQUETA_EXPIRADA, ENTREGUE_REMETENTE,
      SUSPENSAO_ENTREGA, OBJETO_NAO_CHEGOU_UNIDADE, CARTEIRO_SAIU_COLETA]"

text \<open>
  \<open>publish\<close> gives the events for which \<open>sendTrackingEmail\<close> is called (its argument copies
  the event's fields). A failure of the send is caught and logged, so \<open>publish\<close> itself
  never throws.
\<close>

definition publish :: "TrackingStatusChangedEvent \<Rightarrow> TrackingStatusChangedEvent list" where
  "publish event =
     (if ev_deliveryChannel event = PICKUP_IN_POINT then []
      else if newStatus event \<in> set SILENT_STATUSES then []
      else [event])"

section \<open>infrastructure/repositories/DatabaseTrackingRepository.ts\<close>

text \<open>
  The \<open>tracking\<close> table, keyed by tracking code. \<open>findByTrackingCode\<close> gives the row or
  \<open>null\<close>; \<open>updateStatus\<close> writes the status, the events and the update time, and the
  expected date only when one is given, and throws when no row has the code.
\<close>

type_synonym tracking_table = "jsstring \<Rightarrow> TrackingEntity option"

definition findByTrackingCode :: "tracking_table \<Rightarrow> jsstring \<Rightarrow> TrackingEntity option" where
  "findByTrackingCode table code = table code"

definition updateStatus ::
  "jsstring \<Rightarrow> tracking_table \<Rightarrow> jsstring \<Rightarrow> jsstring \<Rightarrow> TrackingEvent list \<Rightarrow> jsstring option
   \<Rightarrow> thrown + (TrackingEntity \<times> tracking_table)" where
  "updateStatus now table code status' events' dtExpected' =
     (case table code of
        None \<Rightarrow> Inl (Error (js ''Tracking with tracking code '' @ code @ js '' not found''))
      | Some row \<Rightarrow>
          (let updated =
                 row\<lparr>currentStatus := status', events := events', updatedAt := Some now,
                     dtExpected := (if truthy dtExpected' then dtExpected' else dtExpected row)\<rparr>
           in Inr (updated, table(code \<mapsto> updated))))"

section \<open>application/use-cases/UpdateTrackingStatusUseCase.ts\<close>

record UpdateTrackingStatusRequest =
  req_trackingCode :: jsstring
  req_newStatus :: jsstring
  req_events :: "TrackingEvent list"
  req_dtExpected :: "jsstring option"

text \<open>\<open>execute\<close> gives what it returned or threw, the table after it and the notifications
  it dispatched.\<close>

definition execute ::
  "(jsstring \<Rightarrow> jsstring option) \<Rightarrow> jsstring \<Rightarrow> tracking_table \<Rightarrow> UpdateTrackingStatusRequest
   \<Rightarrow> (thrown + (TrackingEntity \<times> bool)) \<times> tracking_table \<times> TrackingStatusChangedEvent list" where
  "execute toISOString now table request =
     (case findByTrackingCode table (req_trackingCode request) of
        None \<Rightarrow> (Inl (Error (js ''Tracking n'' @ [0xE3] @ js ''o encontrado'')), table, [])
      | Some currentTracking \<Rightarrow>
          (let statusChanged = hasStatusChanged currentTracking (req_newStatus request) in
           case hasNewEvents toISOString (events currentTracking) (req_events request) of
             Inl e \<Rightarrow> (Inl e, table, [])
           | Inr eventsChanged \<Rightarrow>
               (case updateStatus now table (req_trackingCode request) (req_newStatus request)
                       (req_events request) (req_dtExpected request) of
                  Inl e \<Rightarrow> (Inl e, table, [])
                | Inr (updatedTracking, table') \<Rightarrow>
                    if statusChanged \<or> eventsChanged then
                      (case fromTracking now currentTracking (req_newStatus request)
                              (Some (req_events request)) of
                         Inl e \<Rightarrow> (Inl e, table', [])
                       | Inr event \<Rightarrow> (Inr (updatedTracking, statusChanged), table', publish event))
                    else (Inr (updatedTracking, statusChanged), table', []))))"

section \<open>jobs/trackingJob.ts\<close>

definition MAX_CONSECUTIVE_FAILURES :: int where
  "MAX_CONSECUTIVE_FAILURES = 3"

definition FAILURE_WAIT_TIME :: int where
  "FAILURE_WAIT_TIME = 60000"

text \<open>
  The state a pass works on: the table, the notifications dispatched, the module-level
  \<open>consecutiveFailures\<close>, the four counters of the pass and the waits it has slept.
\<close>

record JobState =
  table :: tracking_table
  dispatched :: "TrackingStatusChangedEvent list"
  consecutiveFailures :: int
  successCount :: nat
  errorCount :: nat
  updatedCount :: nat
  skippedCount :: nat
  waited :: "int list"

text \<open>The \<open>catch\<close> block of the loop body.\<close>

definition recordFailure :: "thrown \<Rightarrow> JobState \<Rightarrow> JobState" where
  "recordFailure error st =
     (if isTemporary error then st\<lparr>skippedCount := skippedCount st + 1\<rparr>
      else
        (let failures = consecutiveFailures st + 1;
             st' = st\<lparr>errorCount := errorCount st + 1, consecutiveFailures := failures\<rparr>
         in if failures \<ge> MAX_CONSECUTIVE_FAILURES then
              st'\<lparr>waited := waited st'
                      @ [FAILURE_WAIT_TIME * min (failures - MAX_CONSECUTIVE_FAILURES + 1) 5]\<rparr>
            else st'))"

text \<open>The \<open>try\<close> block of the loop body, once \<open>trackCorreios\<close> has returned \<open>trackingData\<close>.\<close>

definition recordSuccess ::
  "(jsstring \<Rightarrow> jsstring option) \<Rightarrow> jsstring \<Rightarrow> TrackingEntity \<Rightarrow> CorreiosResponse \<Rightarrow> JobState \<Rightarrow> JobState" where
  "recordSuccess toISOString now tracking trackingData st =
     (let st1 = st\<lparr>successCount := successCount st + 1, consecutiveFailures := 0\<rparr>;
          statusChanged = (res_status trackingData \<noteq> currentStatus tracking)
      in case hasNewEvents toISOString (events tracking) (res_events trackingData) of
           Inl e \<Rightarrow> recordFailure e st1
         | Inr eventsChanged \<Rightarrow>
             if statusChanged \<or> eventsChanged then
               (case execute toISOString now (table st1)
                       \<lparr>req_trackingCode = trackingCode tracking,
                        req_newStatus = res_status trackingData,
                        req_events = res_events trackingData,
                        req_dtExpected = res_dtPrevista trackingData\<rparr> of
                  (Inl e, table', sent) \<Rightarrow>
                    recordFailure e (st1\<lparr>table := table', dispatched := dispatched st1 @ sent\<rparr>)
                | (Inr r, table', sent) \<Rightarrow>
                    st1\<lparr>table := table', dispatched := dispatched st1 @ sent,
                        updatedCount := updatedCount st1 + 1\<rparr>)
             else st1)"

text \<open>One iteration, given what \<open>trackCorreios(tracking.trackingCode)\<close> returned or threw.\<close>

definition processRecord ::
  "(jsstring \<Rightarrow> jsstring option) \<Rightarrow> jsstring \<Rightarrow> (thrown + CorreiosResponse) \<Rightarrow> TrackingEntity \<Rightarrow> JobState \<Rightarrow> JobState" where
  "processRecord toISOString now found tracking st =
     (case found of
        Inl e \<Rightarrow> recordFailure e st
      | Inr trackingData \<Rightarrow> recordSuccess toISOString now tracking trackingData st)"

text \<open>The loop over the pending trackings that \<open>findPendingTrackings\<close> returned.\<close>

fun processLoop ::
  "(jsstring \<Rightarrow> jsstring option) \<Rightarrow> (jsstring \<Rightarrow> nat \<Rightarrow> Attempt) \<Rightarrow> jsstring \<Rightarrow> TrackingEntity list \<Rightarrow> JobState \<Rightarrow> JobState" where
  "processLoop toISOString world now [] st = st"
| "processLoop toISOString world now (tracking # trackings) st =
     processLoop toISOString world now trackings
       (processRecord toISOString now (trackCorreios world now (trackingCode tracking)) tracking st)"

text \<open>A pass: the counters start at zero and \<open>consecutiveFailures\<close> is reset before the
  loop.\<close>

definition processTrackings ::
  "(jsstring \<Rightarrow> jsstring option) \<Rightarrow> (jsstring \<Rightarrow> nat \<Rightarrow> Attempt) \<Rightarrow> jsstring \<Rightarrow> tracking_table \<Rightarrow> TrackingEntity list \<Rightarrow> JobState" where
  "processTrackings toISOString world now table0 trackings =
     processLoop toISOString world now trackings
       \<lparr>table = table0, dispatched = [], consecutiveFailures = 0, successCount = 0,
        errorCount = 0, updatedCount = 0, skippedCount = 0, waited = []\<rparr>"

text \<open>
  The row a pass is to leave for a record. \<open>writtenRow\<close> is the record with the status,
  events and expected date of the lookup result and the time of the update. \<open>rowAfter\<close> is
  that row when the lookup returned, the comparison of the events returned, and the status
  differs or the comparison is true; it is the record as it was in every other case.
\<close>

definition writtenRow :: "jsstring \<Rightarrow> TrackingEntity \<Rightarrow> CorreiosResponse \<Rightarrow> TrackingEntity" where
  "writtenRow now tracking trackingData =
     tracking\<lparr>currentStatus := res_status trackingData, events := res_events trackingData,
              updatedAt := Some now,
              dtExpected := (if truthy (res_dtPrevista trackingData)
                             then res_dtPrevista trackingData else dtExpected tracking)\<rparr>"

definition rowAfter ::
  "(jsstring \<Rightarrow> jsstring option) \<Rightarrow> jsstring \<Rightarrow> (thrown + CorreiosResponse) \<Rightarrow> TrackingEntity \<Rightarrow> TrackingEntity" where
  "rowAfter toISOString now found tracking =
     (case found of
        Inl e \<Rightarrow> tracking
      | Inr trackingData \<Rightarrow>
          (case hasNewEvents toISOString (events tracking) (res_events trackingData) of
             Inl e \<Rightarrow> tracking
           | Inr eventsChanged \<Rightarrow>
               if res_status trackingData \<noteq> currentStatus tracking \<or> eventsChanged
               then writtenRow now tracking trackingData else tracking))"

section \<open>services/correiosTokenService.ts\<close>

record TokenData =
  token :: jsstring
  expiresAt :: int

text \<open>The three environment variables \<open>generateNewToken\<close> reads.\<close>

record Credentials =
  CORREIOS_API_KEY :: "jsstring option"
  CORREIOS_USERNAME :: "jsstring option"
  CORREIOS_POSTAL_CARD :: "jsstring option"

definition credentialsConfigured :: "Credentials \<Rightarrow> bool" where
  "credentialsConfigured env =
     (truthy (CORREIOS_API_KEY env) \<and> truthy (CORREIOS_USERNAME env) \<and> truthy (CORREIOS_POSTAL_CARD env))"

text \<open>
  The service object with what the outside sees of it. A promise is known by its number;
  \<open>promisesCreated\<close> numbers the next one, \<open>generations\<close> counts the calls of
  \<open>generateNewToken\<close> and \<open>authRequests\<close> the requests sent to the authentication endpoint.
\<close>

record CorreiosTokenService =
  tokenCache :: "TokenData option"
  tokenPromise :: "nat option"
  promisesCreated :: nat
  generations :: nat
  authRequests :: nat

datatype token_reply = FromCache jsstring | Awaits nat

definition cacheValid :: "CorreiosTokenService \<Rightarrow> int \<Rightarrow> bool" where
  "cacheValid s now = (case tokenCache s of None \<Rightarrow> False | Some c \<Rightarrow> expiresAt c > now)"

text \<open>
  \<open>generateNewToken\<close> up to its first \<open>await\<close>: with a credential missing it throws before
  any request, otherwise it sends the request.
\<close>

definition generateNewToken_start :: "Credentials \<Rightarrow> CorreiosTokenService \<Rightarrow> CorreiosTokenService" where
  "generateNewToken_start env s =
     (if \<not> credentialsConfigured env then s\<lparr>generations := generations s + 1\<rparr>
      else s\<lparr>generations := generations s + 1, authRequests := authRequests s + 1\<rparr>)"

text \<open>
  \<open>getValidToken\<close> runs without suspending: the body has no \<open>await\<close>, so each call is one
  step on the service object. \<open>now\<close> is \<open>new Date()\<close> in milliseconds.
\<close>

definition awaitOrGenerate :: "Credentials \<Rightarrow> CorreiosTokenService \<Rightarrow> token_reply \<times> CorreiosTokenService" where
  "awaitOrGenerate env s =
     (case tokenPromise s of
        Some p \<Rightarrow> (Awaits p, s)
      | None \<Rightarrow>
          (let p = promisesCreated s;
               s' = generateNewToken_start env s
           in (Awaits p, s'\<lparr>tokenPromise := Some p, promisesCreated := p + 1\<rparr>)))"

definition getValidToken :: "Credentials \<Rightarrow> int \<Rightarrow> CorreiosTokenService \<Rightarrow> token_reply \<times> CorreiosTokenService" where
  "getValidToken env now s =
     (case tokenCache s of
        None \<Rightarrow> awaitOrGenerate env s
      | Some c \<Rightarrow>
          if expiresAt c > now then (FromCache (token c), s)
          else awaitOrGenerate env s)"

text \<open>The rest of \<open>generateNewToken\<close> once the request has answered with a token: the cache
  is filled for one hour.\<close>

definition TOKEN_EXPIRATION_MS :: int where
  "TOKEN_EXPIRATION_MS = 60 * 60 * 1000"

definition generateNewToken_resolve :: "int \<Rightarrow> jsstring \<Rightarrow> CorreiosTokenService \<Rightarrow> CorreiosTokenService" where
  "generateNewToken_resolve now tok s =
     s\<lparr>tokenCache := Some \<lparr>token = tok, expiresAt = now + TOKEN_EXPIRATION_MS\<rparr>\<rparr>"

text \<open>The \<open>finally\<close> callback and \<open>clearCache\<close>.\<close>

definition finallyClear :: "CorreiosTokenService \<Rightarrow> CorreiosTokenService" where
  "finallyClear s = s\<lparr>tokenPromise := None\<rparr>"

definition clearCache :: "CorreiosTokenService \<Rightarrow> CorreiosTokenService" where
  "clearCache s = s\<lparr>tokenCache := None, tokenPromise := None\<rparr>"

text \<open>Callers arriving one after another at the given times, with no other step between
  them: the replies in order and the service after the last.\<close>

fun callers :: "Credentials \<Rightarrow> int list \<Rightarrow> CorreiosTokenService \<Rightarrow> token_reply list \<times> CorreiosTokenService" where
  "callers env [] s = ([], s)"
| "callers env (t # ts) s =
     (case getValidToken env t s of
        (r, s') \<Rightarrow> (case callers env ts s' of (rs, s'') \<Rightarrow> (r # rs, s'')))"

section \<open>Sample data\<close>

text \<open>Concrete inputs on which the properties below are exercised. \<open>sampleISO\<close> is
  \<open>toISOString\<close> on the two dates of the samples and on the sample clock reading; on the
  text \<open>sem data\<close>, which is no date, it gives \<open>None\<close>.\<close>

definition sampleISO :: "jsstring \<Rightarrow> jsstring option" where
  "sampleISO d =
     (if d = js ''2024-01-01T10:00:00Z'' then Some (js ''2024-01-01T10:00:00.000Z'')
      else if d = js ''2024-01-02T12:00:00Z'' then Some (js ''2024-01-02T12:00:00.000Z'')
      else if d = js ''2024-01-03T09:00:00.000Z'' then Some (js ''2024-01-03T09:00:00.000Z'')
      else None)"

definition sampleNow :: jsstring where
  "sampleNow = js ''2024-01-03T09:00:00.000Z''"

definition eventPostado :: TrackingEvent where
  "eventPostado =
     \<lparr>date = js ''2024-01-01T10:00:00Z'', location = js ''Curitiba/PR'',
      status = POSTADO, description = POSTADO,
      detail = None, unitType = None, originUnit = None, destinationUnit = None,
      unitAddress = None\<rparr>"

definition eventTransito :: TrackingEvent where
  "eventTransito =
     \<lparr>date = js ''2024-01-02T12:00:00Z'', location = js ''Curitiba/PR'',
      status = EM_TRANSITO, description = EM_TRANSITO,
      detail = None, unitType = None, originUnit = None, destinationUnit = None,
      unitAddress = None\<rparr>"



definition sampleCode :: jsstring where
  "sampleCode = js ''AA123456789BB''"

definition sampleTracking :: TrackingEntity where
  "sampleTracking =
     \<lparr>tracking_id = Some (js ''1''), name = js ''Test Customer'', email = js ''test@example.com'',
      trackingCode = sampleCode, currentStatus = POSTADO, deliveryChannel = DELIVERY,
      products = [\<lparr>product_name = js ''Test Product''\<rparr>], events = [eventPostado],
      updatedAt = None, dtExpected = None\<rparr>"

definition sampleTable :: tracking_table where
  "sampleTable = [sampleCode \<mapsto> sampleTracking]"

definition sampleStart :: JobState where
  "sampleStart =
     \<lparr>table = sampleTable, dispatched = [], consecutiveFailures = 0, successCount = 0,
      errorCount = 0, updatedCount = 0, skippedCount = 0, waited = []\<rparr>"

text \<open>Four pending records without events yet, as a pass holds them.\<close>

definition sampleBatch :: "TrackingEntity list" where
  "sampleBatch =
     map (\<lambda>c. sampleTracking\<lparr>trackingCode := c, events := []\<rparr>)
       [js ''AA000000001BR'', js ''AA000000002BR'', js ''AA000000003BR'', js ''AA000000004BR'']"

definition sampleChanged :: TrackingStatusChangedEvent where
  "sampleChanged =
     \<lparr>trackingId = js ''1'', ev_trackingCode = sampleCode, customerName = js ''Test Customer'',
      customerEmail = js ''test@example.com'', ev_products = [js ''Test Product''],
      previousStatus = EM_TRANSITO, newStatus = ENTREGUE, ev_deliveryChannel = DELIVERY,
      timestamp = sampleNow, ev_detail = None, ev_originUnit = None,
      ev_destinationUnit = None, ev_unitAddress = None, unitCep = None\<rparr>"

text \<open>Worlds: every request answered with the given status code and body text, or with
  the given parsed body.\<close>

definition answering :: "nat \<Rightarrow> jsstring \<Rightarrow> jsstring \<Rightarrow> nat \<Rightarrow> Attempt" where
  "answering code' body c k =
     \<lparr>tokenResult = Inr (js ''token''),
      fetchResult = Inr \<lparr>http_status = code', http_text = Inr body,
                        http_json = Inl (Error (js ''Unexpected token''))\<rparr>\<rparr>"

definition returning :: "CorreiosApiResponse \<Rightarrow> jsstring \<Rightarrow> nat \<Rightarrow> Attempt" where
  "returning body c k =
     \<lparr>tokenResult = Inr (js ''token''),
      fetchResult = Inr \<lparr>http_status = 200, http_text = Inr [], http_json = Inr body\<rparr>\<rparr>"

definition sampleEvento :: "jsstring \<Rightarrow> jsstring \<Rightarrow> Evento" where
  "sampleEvento d when =
     \<lparr>descricao = d, dtHrCriado = when, detalhe = None, unidade = None, unidadeDestino = None\<rparr>"

definition withObjeto :: "Objeto \<Rightarrow> CorreiosApiResponse" where
  "withObjeto obj =
     \<lparr>versao = js ''1.0'', quantidade = 1, objetos = Some [obj], tipoResultado = js ''Todos''\<rparr>"

text \<open>A response of the carrier that holds no object.\<close>

definition noObjeto :: CorreiosApiResponse where
  "noObjeto =
     \<lparr>versao = js ''1.0'', quantidade = 0, objetos = Some [], tipoResultado = js ''Todos''\<rparr>"

definition sampleObjeto :: "jsstring option \<Rightarrow> Evento list option \<Rightarrow> Objeto" where
  "sampleObjeto msg evs =
     \<lparr>codObjeto = sampleCode, dtPrevista = None, mensagem = msg, eventos = evs\<rparr>"

text \<open>A stored event whose date is not a date, and a record that holds it.\<close>

definition eventSemData :: TrackingEvent where
  "eventSemData = eventPostado\<lparr>date := js ''sem data''\<rparr>"

definition staleTracking :: TrackingEntity where
  "staleTracking = sampleTracking\<lparr>events := [eventSemData]\<rparr>"

text \<open>A response with one event whose description matches no pattern.\<close>

definition pendingEvento :: Evento where
  "pendingEvento = sampleEvento (js ''Aguardando pagamento'') (js ''2024-01-02T12:00:00Z'')"

definition pendingResponse :: CorreiosApiResponse where
  "pendingResponse = withObjeto (sampleObjeto None (Some [pendingEvento]))"

text \<open>
  A pass over four records: the lookup of the first is answered 503 at every attempt, the
  second gets its first event, the third holds the event without a date and its lookup is
  answered 404, and the fourth gets an object without events and has the label-issued
  status already.
\<close>

definition passSkipped :: TrackingEntity where
  "passSkipped = sampleTracking\<lparr>trackingCode := js ''AA000000001BR'', events := []\<rparr>"

definition passUpdated :: TrackingEntity where
  "passUpdated = sampleTracking\<lparr>trackingCode := js ''AA000000002BR'', events := []\<rparr>"

definition passStale :: TrackingEntity where
  "passStale = sampleTracking\<lparr>trackingCode := js ''AA000000003BR'', events := [eventSemData]\<rparr>"

definition passSame :: TrackingEntity where
  "passSame =
     sampleTracking\<lparr>trackingCode := js ''AA000000004BR'', currentStatus := ETIQUETA_EMITIDA,
                    events := []\<rparr>"

definition passRecords :: "TrackingEntity list" where
  "passRecords = [passSkipped, passUpdated, passStale, passSame]"

definition passTable :: tracking_table where
  "passTable =
     [js ''AA000000001BR'' \<mapsto> passSkipped, js ''AA000000002BR'' \<mapsto> passUpdated,
      js ''AA000000003BR'' \<mapsto> passStale, js ''AA000000004BR'' \<mapsto> passSame]"

definition passWorld :: "jsstring \<Rightarrow> nat \<Rightarrow> Attempt" where
  "passWorld c =
     (if c = js ''AA000000001BR'' then answering 503 (js ''Service Unavailable'') c
      else if c = js ''AA000000002BR'' then returning pendingResponse c
      else if c = js ''AA000000003BR'' then answering 404 (js ''Not Found'') c
      else returning (withObjeto (sampleObjeto None (Some []))) c)"

definition sampleCredentials :: Credentials where
  "sampleCredentials =
     \<lparr>CORREIOS_API_KEY = Some (js ''key''), CORREIOS_USERNAME = Some (js ''user''),
      CORREIOS_POSTAL_CARD = Some (js ''0067599079'')\<rparr>"

definition freshService :: CorreiosTokenService where
  "freshService =
     \<lparr>tokenCache = None, tokenPromise = None, promisesCreated = 0, generations = 0,
      authRequests = 0\<rparr>"

section \<open>Properties\<close>

subsection \<open>The retry loop\<close>

lemma retry_loop_success:
  "of_int attempt \<le> maxA \<Longrightarrow> fn n = Inr v \<Longrightarrow>
   retry_loop fn maxA initD maxD mult cb attempt le n sl rl =
     \<lparr>outcome = Inr v, calls = Suc n, slept = sl, retried = rl\<rparr>"
  by (subst retry_loop.simps) simp

lemma retry_loop_permanent:
  "of_int attempt \<le> maxA \<Longrightarrow> fn n = Inl e \<Longrightarrow> isPermanent e \<Longrightarrow>
   retry_loop fn maxA initD maxD mult cb attempt le n sl rl =
     \<lparr>outcome = Inl e, calls = Suc n, slept = sl, retried = rl\<rparr>"
  by (subst retry_loop.simps) simp

lemma retry_loop_last:
  "fn n = Inl e \<Longrightarrow>
   retry_loop fn (of_int attempt) initD maxD mult cb attempt le n sl rl =
     \<lparr>outcome = Inl e, calls = Suc n, slept = sl, retried = rl\<rparr>"
  by (subst retry_loop.simps) simp

lemma retry_loop_exit:
  "maxA < of_int attempt \<Longrightarrow>
   retry_loop fn maxA initD maxD mult cb attempt le n sl rl =
     \<lparr>outcome = Inl (case le of None \<Rightarrow> Undefined | Some e \<Rightarrow> e), calls = n, slept = sl,
      retried = rl\<rparr>"
  by (subst retry_loop.simps) simp

text \<open>A callback that throws ends the run with what it threw, before any sleep.\<close>

lemma retry_loop_throwing_callback:
  "of_int attempt < maxA \<Longrightarrow> fn n = Inl e \<Longrightarrow> \<not> isPermanent e \<Longrightarrow> f attempt e = Some x \<Longrightarrow>
   retry_loop fn maxA initD maxD mult (Some f) attempt le n sl rl =
     \<lparr>outcome = Inl x, calls = Suc n, slept = sl, retried = rl @ [(attempt, e)]\<rparr>"
  by (subst retry_loop.simps) simp

lemma retry_loop_retry:
  "of_int attempt < maxA \<Longrightarrow> fn n = Inl e \<Longrightarrow> \<not> isPermanent e \<Longrightarrow> quiet cb \<Longrightarrow>
   \<exists>rl'. retry_loop fn maxA initD maxD mult cb attempt le n sl rl =
     retry_loop fn maxA initD maxD mult cb (attempt + 1) (Some e) (Suc n)
       (sl @ [backoffDelay initD mult maxD attempt]) rl'"
  by (subst retry_loop.simps) (auto simp: quiet_def split: option.splits)

text \<open>Across \<open>k\<close> failures that are not permanent and not on the last attempt, with a
  callback that does not throw, the loop advances by \<open>k\<close> attempts and sleeps the \<open>k\<close>
  delays.\<close>

lemma retry_loop_skip:
  "of_int (attempt + int k) \<le> maxA \<Longrightarrow> quiet cb \<Longrightarrow>
   (\<forall>j<k. \<exists>e. fn (n + j) = Inl e \<and> \<not> isPermanent e) \<Longrightarrow>
   \<exists>le' rl'. retry_loop fn maxA initD maxD mult cb attempt le n sl rl =
     retry_loop fn maxA initD maxD mult cb (attempt + int k) le' (n + k)
       (sl @ map (backoffDelay initD mult maxD) [attempt..attempt + int k - 1]) rl'"
proof (induction k arbitrary: attempt le n sl rl)
  case 0
  then show ?case by auto
next
  case (Suc k)
  from Suc.prems obtain e where e: "fn n = Inl e" "\<not> isPermanent e"
    by (metis add.right_neutral zero_less_Suc)
  have "(of_int attempt :: rat) < of_int (attempt + int (Suc k))" by simp
  with Suc.prems(1) have lt: "of_int attempt < maxA" by (meson less_le_trans)
  from lt e Suc.prems(2) retry_loop_retry [of attempt maxA fn n e cb initD maxD mult le sl rl]
  obtain rl1 where step: "retry_loop fn maxA initD maxD mult cb attempt le n sl rl =
     retry_loop fn maxA initD maxD mult cb (attempt + 1) (Some e) (Suc n)
       (sl @ [backoffDelay initD mult maxD attempt]) rl1"
    by blast
  have rest: "\<forall>j<k. \<exists>e. fn (Suc n + j) = Inl e \<and> \<not> isPermanent e"
    using Suc.prems(3) by (metis Suc_less_eq add_Suc_shift)
  have "attempt + int (Suc k) = (attempt + 1) + int k" by simp
  with Suc.prems(1) have bound: "of_int ((attempt + 1) + int k) \<le> maxA" by simp
  from bound Suc.prems(2) rest
    Suc.IH [of "attempt + 1" "Suc n" "Some e" "sl @ [backoffDelay initD mult maxD attempt]" rl1]
  obtain le' rl' where ih: "retry_loop fn maxA initD maxD mult cb (attempt + 1) (Some e) (Suc n)
       (sl @ [backoffDelay initD mult maxD attempt]) rl1 =
     retry_loop fn maxA initD maxD mult cb (attempt + 1 + int k) le' (Suc n + k)
       ((sl @ [backoffDelay initD mult maxD attempt]) @
          map (backoffDelay initD mult maxD) [attempt + 1..attempt + 1 + int k - 1]) rl'"
    by blast
  have lst: "[attempt..attempt + int (Suc k) - 1] = attempt # [attempt + 1..attempt + 1 + int k - 1]"
    by (simp add: upto_rec1 [of attempt] add.commute add.left_commute)
  show ?case
    unfolding step ih lst by (intro exI) (simp add: add.commute add.left_commute)
qed

text \<open>When invocation \<open>k\<close> is the first to succeed and attempt \<open>k + 1\<close> is allowed, its result
  is returned after \<open>k + 1\<close> invocations and \<open>k\<close> sleeps.\<close>

lemma retry_success_after:
  assumes k: "of_int (1 + int k) \<le> maxA" and q: "quiet cb"
    and fails: "\<forall>j<k. \<exists>e. fn j = Inl e \<and> \<not> isPermanent e"
    and ok: "fn k = Inr v"
  shows "\<exists>rl'. retry_loop fn maxA initD maxD mult cb 1 None 0 [] [] =
     \<lparr>outcome = Inr v, calls = Suc k, slept = map (backoffDelay initD mult maxD) [1..int k], retried = rl'\<rparr>"
proof -
  from fails have f: "\<forall>j<k. \<exists>e. fn (0 + j) = Inl e \<and> \<not> isPermanent e" by simp
  from k q f retry_loop_skip [of 1 k maxA cb fn 0 initD maxD mult None "[]" "[]"]
  obtain le' rl' where "retry_loop fn maxA initD maxD mult cb 1 None 0 [] [] =
     retry_loop fn maxA initD maxD mult cb (1 + int k) le' (0 + k)
       ([] @ map (backoffDelay initD mult maxD) [1..1 + int k - 1]) rl'" by blast
  moreover have "retry_loop fn maxA initD maxD mult cb (1 + int k) le' (0 + k)
       ([] @ map (backoffDelay initD mult maxD) [1..1 + int k - 1]) rl' =
     \<lparr>outcome = Inr v, calls = Suc k, slept = map (backoffDelay initD mult maxD) [1..int k], retried = rl'\<rparr>"
    using k ok retry_loop_success [of "1 + int k" maxA fn "0 + k" v] by simp
  ultimately show ?thesis by auto
qed

text \<open>With a whole number \<open>m\<close> of attempts, at least one, an operation that never succeeds
  and never fails permanently is invoked \<open>m\<close> times, with \<open>m - 1\<close> sleeps.\<close>

lemma retry_exhausted:
  assumes m: "1 \<le> m" and q: "quiet cb"
    and fails: "\<forall>k. \<exists>e. fn k = Inl e \<and> \<not> isPermanent e"
  shows "\<exists>rl'. retry_loop fn (of_int m) initD maxD mult cb 1 None 0 [] [] =
     \<lparr>outcome = fn (nat m - 1), calls = nat m,
      slept = map (backoffDelay initD mult maxD) [1..m - 1], retried = rl'\<rparr>"
proof -
  define k where "k = nat m - 1"
  from m have eq: "1 + int k = m" by (simp add: k_def)
  then have b: "(of_int (1 + int k) :: rat) \<le> of_int m" by simp
  from fails have f: "\<forall>j<k. \<exists>e. fn (0 + j) = Inl e \<and> \<not> isPermanent e" by simp
  from fails obtain e where e: "fn k = Inl e" by blast
  from b q f retry_loop_skip [of 1 k "of_int m" cb fn 0 initD maxD mult None "[]" "[]"]
  obtain le' rl' where "retry_loop fn (of_int m) initD maxD mult cb 1 None 0 [] [] =
     retry_loop fn (of_int m) initD maxD mult cb (1 + int k) le' (0 + k)
       ([] @ map (backoffDelay initD mult maxD) [1..1 + int k - 1]) rl'" by blast
  moreover have "retry_loop fn (of_int m) initD maxD mult cb (1 + int k) le' (0 + k)
       ([] @ map (backoffDelay initD mult maxD) [1..1 + int k - 1]) rl' =
     \<lparr>outcome = fn k, calls = Suc k, slept = map (backoffDelay initD mult maxD) [1..m - 1], retried = rl'\<rparr>"
    unfolding eq using retry_loop_last [of fn k e m] e by simp
  moreover have "Suc k = nat m" using m by (simp add: k_def)
  ultimately show ?thesis unfolding k_def by auto
qed

lemma retry_permanent_once:
  assumes m: "1 \<le> maxA"
    and perm: "\<forall>k. \<exists>msg orig. fn k = Inl (ClassifiedError msg PERMANENT orig)"
  shows "retry_loop fn maxA initD maxD mult cb 1 None 0 [] [] =
     \<lparr>outcome = fn 0, calls = 1, slept = [], retried = []\<rparr>"
proof -
  from perm obtain msg orig where "fn 0 = Inl (ClassifiedError msg PERMANENT orig)" by blast
  moreover from m have "of_int 1 \<le> maxA" by simp
  ultimately show ?thesis
    using retry_loop_permanent [of 1 maxA fn 0 "ClassifiedError msg PERMANENT orig"] by simp
qed

text \<open>
  From one allowed attempt upwards, and with a callback that does not throw, the loop does
  what its description says:
  an operation that always fails with a PERMANENT ClassifiedError is invoked exactly once
  and that error is rethrown, with no sleep;
  with a whole number of attempts, an operation that always fails with an error that is not
  PERMANENT is invoked exactly \<open>maxAttempts\<close> times, the error of the last invocation is
  rethrown, and after attempt \<open>a\<close> (for \<open>a\<close> from 1 to \<open>maxAttempts - 1\<close>) the loop sleeps
  \<open>Math.min(initialDelay * Math.pow(backoffMultiplier, a - 1), maxDelay)\<close>;
  and when invocation \<open>k\<close> is the first to succeed, after \<open>k\<close> failures that are not
  permanent, its result is returned after exactly \<open>k + 1\<close> invocations.
\<close>

lemma retryWithBackoff_from_one_attempt:
  "(1 \<le> maxAttemptsOf options \<and> (\<forall>k. \<exists>msg orig. fn k = Inl (ClassifiedError msg PERMANENT orig)) \<longrightarrow>
      outcome (retryWithBackoff fn options) = fn 0
      \<and> calls (retryWithBackoff fn options) = 1
      \<and> slept (retryWithBackoff fn options) = [])
   \<and> (\<forall>m. 1 \<le> m \<and> maxAttemptsOf options = of_int m \<and> quiet (onRetry options)
         \<and> (\<forall>k. \<exists>e. fn k = Inl e \<and> \<not> isPermanent e) \<longrightarrow>
      outcome (retryWithBackoff fn options) = fn (nat m - 1)
      \<and> calls (retryWithBackoff fn options) = nat m
      \<and> slept (retryWithBackoff fn options) =
          map (\<lambda>attempt. MinOfTimesPow (initialDelayOf options) (backoffMultiplierOf options)
                 (attempt - 1) (maxDelayOf options)) [1..m - 1])
   \<and> (\<forall>k v. of_int (1 + int k) \<le> maxAttemptsOf options \<and> quiet (onRetry options)
         \<and> (\<forall>j<k. \<exists>e. fn j = Inl e \<and> \<not> isPermanent e) \<and> fn k = Inr v \<longrightarrow>
      outcome (retryWithBackoff fn options) = Inr v
      \<and> calls (retryWithBackoff fn options) = Suc k
      \<and> slept (retryWithBackoff fn options) =
          map (\<lambda>attempt. MinOfTimesPow (initialDelayOf options) (backoffMultiplierOf options)
                 (attempt - 1) (maxDelayOf options)) [1..int k])"
proof (intro conjI impI allI)
  assume a: "1 \<le> maxAttemptsOf options \<and> (\<forall>k. \<exists>msg orig. fn k = Inl (ClassifiedError msg PERMANENT orig))"
  note r = retry_permanent_once [of "maxAttemptsOf options" fn "initialDelayOf options" "maxDelayOf options"
      "backoffMultiplierOf options" "onRetry options"]
  from a r show "outcome (retryWithBackoff fn options) = fn 0" by (simp add: retryWithBackoff_def)
  from a r show "calls (retryWithBackoff fn options) = 1" by (simp add: retryWithBackoff_def)
  from a r show "slept (retryWithBackoff fn options) = []" by (simp add: retryWithBackoff_def)
next
  fix m
  assume a: "1 \<le> m \<and> maxAttemptsOf options = of_int m \<and> quiet (onRetry options)
         \<and> (\<forall>k. \<exists>e. fn k = Inl e \<and> \<not> isPermanent e)"
  from a retry_exhausted [of m "onRetry options" fn "initialDelayOf options" "maxDelayOf options"
      "backoffMultiplierOf options"]
  obtain rl' where r: "retryWithBackoff fn options =
     \<lparr>outcome = fn (nat m - 1), calls = nat m,
      slept = map (backoffDelay (initialDelayOf options) (backoffMultiplierOf options) (maxDelayOf options))
                [1..m - 1], retried = rl'\<rparr>"
    unfolding retryWithBackoff_def by auto
  show "outcome (retryWithBackoff fn options) = fn (nat m - 1)" by (simp add: r)
  show "calls (retryWithBackoff fn options) = nat m" by (simp add: r)
  show "slept (retryWithBackoff fn options) =
          map (\<lambda>attempt. MinOfTimesPow (initialDelayOf options) (backoffMultiplierOf options)
                 (attempt - 1) (maxDelayOf options)) [1..m - 1]"
    by (simp add: r backoffDelay_def [abs_def])
next
  fix k v
  assume a: "of_int (1 + int k) \<le> maxAttemptsOf options \<and> quiet (onRetry options)
         \<and> (\<forall>j<k. \<exists>e. fn j = Inl e \<and> \<not> isPermanent e) \<and> fn k = Inr v"
  from a retry_success_after [of k "maxAttemptsOf options" "onRetry options" fn v "initialDelayOf options"
      "maxDelayOf options" "backoffMultiplierOf options"]
  obtain rl' where r: "retryWithBackoff fn options =
     \<lparr>outcome = Inr v, calls = Suc k,
      slept = map (backoffDelay (initialDelayOf options) (backoffMultiplierOf options) (maxDelayOf options))
                [1..int k], retried = rl'\<rparr>"
    unfolding retryWithBackoff_def by blast
  show "outcome (retryWithBackoff fn options) = Inr v" by (simp add: r)
  show "calls (retryWithBackoff fn options) = Suc k" by (simp add: r)
  show "slept (retryWithBackoff fn options) =
          map (\<lambda>attempt. MinOfTimesPow (initialDelayOf options) (backoffMultiplierOf options)
                 (attempt - 1) (maxDelayOf options)) [1..int k]"
    by (simp add: r backoffDelay_def [abs_def])
qed

text \<open>The three runs of the repository's own tests of \<open>retryWithBackoff\<close> (three attempts,
  initial delay 10, no callback).\<close>

lemma retryWithBackoff_test_runs:
  "retryWithBackoff (\<lambda>k. Inl (ClassifiedError (js ''Not found'') PERMANENT None) :: thrown + jsstring)
        \<lparr>maxAttempts = Some 3, initialDelay = Some 10, maxDelay = None,
         backoffMultiplier = None, onRetry = None\<rparr>
     = \<lparr>outcome = Inl (ClassifiedError (js ''Not found'') PERMANENT None), calls = 1, slept = [],
        retried = []\<rparr>"
  "retryWithBackoff (\<lambda>k. Inl (Error (js ''Persistent error'')) :: thrown + jsstring)
        \<lparr>maxAttempts = Some 3, initialDelay = Some 10, maxDelay = None,
         backoffMultiplier = None, onRetry = None\<rparr>
     = \<lparr>outcome = Inl (Error (js ''Persistent error'')), calls = 3,
        slept = [MinOfTimesPow 10 2 0 10000, MinOfTimesPow 10 2 1 10000], retried = []\<rparr>"
  "retryWithBackoff (\<lambda>k. if k = 0 then Inl (Error (js ''Temporary error'')) else Inr (js ''success''))
        \<lparr>maxAttempts = Some 3, initialDelay = Some 10, maxDelay = None,
         backoffMultiplier = None, onRetry = None\<rparr>
     = \<lparr>outcome = Inr (js ''success''), calls = 2, slept = [MinOfTimesPow 10 2 0 10000],
        retried = []\<rparr>"
  by (simp_all add: retryWithBackoff_def maxAttemptsOf_def initialDelayOf_def maxDelayOf_def
      backoffMultiplierOf_def retry_loop.simps backoffDelay_def)

text \<open>With a fractional number of attempts the last allowed attempt is never recognised as
  the last: after it the loop sleeps once more and then leaves through the final \<open>throw\<close>,
  with the last error.\<close>

lemma retryWithBackoff_fractional_attempts:
  "retryWithBackoff (\<lambda>k. Inl (Error (js ''Persistent error'')) :: thrown + jsstring)
        \<lparr>maxAttempts = Some (5 / 2), initialDelay = Some 10, maxDelay = None,
         backoffMultiplier = None, onRetry = None\<rparr>
     = \<lparr>outcome = Inl (Error (js ''Persistent error'')), calls = 2,
        slept = [MinOfTimesPow 10 2 0 10000, MinOfTimesPow 10 2 1 10000], retried = []\<rparr>"
  by (simp add: retryWithBackoff_def maxAttemptsOf_def initialDelayOf_def maxDelayOf_def
      backoffMultiplierOf_def retry_loop.simps backoffDelay_def)


subsection \<open>Status classification\<close>

lemma startsWith_iff: "startsWith s p \<longleftrightarrow> (\<exists>b. s = p @ b)"
  by (induction s p rule: startsWith.induct) auto

lemma js_includes_iff: "js_includes s p \<longleftrightarrow> (\<exists>a b. s = a @ p @ b)"
proof (induction s)
  case Nil
  then show ?case by auto
next
  case (Cons c cs)
  show ?case
  proof
    assume "js_includes (c # cs) p"
    then consider "startsWith (c # cs) p" | "js_includes cs p" by auto
    then show "\<exists>a b. c # cs = a @ p @ b"
    proof cases
      case 1
      then obtain b where "c # cs = p @ b" by (auto simp: startsWith_iff)
      then have "c # cs = [] @ p @ b" by simp
      then show ?thesis by blast
    next
      case 2
      then obtain a b where "cs = a @ p @ b" using Cons.IH by blast
      then have "c # cs = (c # a) @ p @ b" by simp
      then show ?thesis by blast
    qed
  next
    assume "\<exists>a b. c # cs = a @ p @ b"
    then obtain a b where ab: "c # cs = a @ p @ b" by blast
    show "js_includes (c # cs) p"
    proof (cases a)
      case Nil
      then have "startsWith (c # cs) p" using ab by (auto simp: startsWith_iff)
      then show ?thesis by simp
    next
      case (Cons x xs)
      then have "cs = xs @ p @ b" using ab by simp
      then have "js_includes cs p" using Cons.IH by blast
      then show ?thesis by simp
    qed
  qed
qed

lemma determineStatus_firstMatch: "determineStatus d = firstMatch d"
  unfolding determineStatus_def firstMatch_def statusRules_def by simp

lemma delivered_not_generic:
  "ENTREGUE \<noteq> NAO_ENTREGUE" "ENTREGUE_REMETENTE \<noteq> NAO_ENTREGUE"
  "ENTREGUE_CAIXA_INTELIGENTE \<noteq> NAO_ENTREGUE" "NAO_ENTREGUE_PRAZO_ENCERRADO \<noteq> NAO_ENTREGUE"
  by (simp_all add: ENTREGUE_def ENTREGUE_REMETENTE_def ENTREGUE_CAIXA_INTELIGENTE_def
      NAO_ENTREGUE_PRAZO_ENCERRADO_def NAO_ENTREGUE_def js_def)

lemma determineStatus_unmatched:
  "\<forall>rule \<in> set statusRules. \<not> js_includes d (fst rule) \<Longrightarrow> determineStatus d = EM_TRANSITO"
  unfolding determineStatus_def statusRules_def by simp

lemma statusRules_specificFirst: "specificFirst (map fst statusRules)"
  by code_simp

lemma lookup_returned:
  "outcome (lookup world code) = Inr trackingData \<Longrightarrow>
   trackCorreios world now code =
     (case trackingResult now trackingData of Inl e \<Rightarrow> lookupFailure now e | Inr r \<Rightarrow> Inr r)"
  by (simp add: trackCorreios_def)

lemma trackCorreios_events:
  assumes "outcome (lookup world code) = Inr trackingData"
    and "objetos trackingData = Some (objeto # rest)"
    and "\<not> truthy (mensagem objeto)"
    and "eventos objeto = Some (evento # others)"
  shows "trackCorreios world now code =
     Inr \<lparr>res_status = determineStatus (descricao evento),
          res_events = map toTrackingEvent (evento # others),
          res_dtPrevista = dtPrevista objeto\<rparr>"
  using assms by (simp add: lookup_returned trackingResult_def toTrackingEvent_def)

text \<open>
  C3 (as amended). The status is a function of the description of the first (most recent)
  event and is the status of the first rule, in the order of the chain, whose pattern the
  description contains; the chain runs from specific to general, no pattern occurring
  inside a later one. So a description containing the pattern \<open>ENTREGUE\<close> gives the
  delivered-to-recipient status; a description containing the pattern
  \<open>NAO_ENTREGUE_PRAZO_ENCERRADO\<close> never gives the generic not-delivered status, and gives
  the pickup-window-expired status when it contains none of the three "Objeto entregue ..."
  patterns tested before it; and a description containing no pattern gives the generic
  in-transit status, the lookup still returning a result.
\<close>

theorem determineStatus_ordered:
  "(outcome (lookup world code) = Inr trackingData \<and> objetos trackingData = Some (objeto # rest)
      \<and> \<not> truthy (mensagem objeto) \<and> eventos objeto = Some (evento # others)
      \<longrightarrow> (\<exists>r. trackCorreios world now code = Inr r \<and> res_status r = determineStatus (descricao evento)))
   \<and> determineStatus d = firstMatch d
   \<and> specificFirst (map fst statusRules)
   \<and> (js_includes d ENTREGUE \<longrightarrow> determineStatus d = ENTREGUE)
   \<and> (js_includes d NAO_ENTREGUE_PRAZO_ENCERRADO \<longrightarrow> determineStatus d \<noteq> NAO_ENTREGUE)
   \<and> (js_includes d NAO_ENTREGUE_PRAZO_ENCERRADO \<and> \<not> js_includes d ENTREGUE
        \<and> \<not> js_includes d ENTREGUE_REMETENTE \<and> \<not> js_includes d ENTREGUE_CAIXA_INTELIGENTE
        \<longrightarrow> determineStatus d = NAO_ENTREGUE_PRAZO_ENCERRADO)
   \<and> ((\<forall>rule \<in> set statusRules. \<not> js_includes d (fst rule)) \<longrightarrow> determineStatus d = EM_TRANSITO)"
proof (intro conjI impI)
  assume "outcome (lookup world code) = Inr trackingData \<and> objetos trackingData = Some (objeto # rest)
      \<and> \<not> truthy (mensagem objeto) \<and> eventos objeto = Some (evento # others)"
  then show "\<exists>r. trackCorreios world now code = Inr r \<and> res_status r = determineStatus (descricao evento)"
    using trackCorreios_events [of world code trackingData objeto rest evento others now] by simp
next
  show "determineStatus d = firstMatch d" by (rule determineStatus_firstMatch)
next
  show "specificFirst (map fst statusRules)" by (rule statusRules_specificFirst)
next
  assume "js_includes d ENTREGUE"
  then show "determineStatus d = ENTREGUE" by (simp add: determineStatus_def)
next
  assume "js_includes d NAO_ENTREGUE_PRAZO_ENCERRADO"
  then show "determineStatus d \<noteq> NAO_ENTREGUE"
    using delivered_not_generic by (simp add: determineStatus_def)
next
  assume "js_includes d NAO_ENTREGUE_PRAZO_ENCERRADO \<and> \<not> js_includes d ENTREGUE
        \<and> \<not> js_includes d ENTREGUE_REMETENTE \<and> \<not> js_includes d ENTREGUE_CAIXA_INTELIGENTE"
  then show "determineStatus d = NAO_ENTREGUE_PRAZO_ENCERRADO" by (simp add: determineStatus_def)
next
  assume "\<forall>rule \<in> set statusRules. \<not> js_includes d (fst rule)"
  then show "determineStatus d = EM_TRANSITO" by (rule determineStatus_unmatched)
qed


lemma sample_lookup_returns:
  "outcome (lookup (returning body) code) = Inr body"
  by (simp add: lookup_def retryWithBackoff_def trackCorreios_options_def maxAttemptsOf_def
      retry_loop.simps fetchTrackingData_def fetchTrackingData_try_def returning_def http_ok_def)

lemma sample_plain_unmatched:
  "\<forall>rule \<in> set statusRules. \<not> js_includes (js ''Aguardando pagamento'') (fst rule)"
  unfolding statusRules_def
  by (simp add: js_def ENTREGUE_def ENTREGUE_REMETENTE_def ENTREGUE_CAIXA_INTELIGENTE_def
      NAO_ENTREGUE_PRAZO_ENCERRADO_def NAO_ENTREGUE_CARTEIRO_NAO_ATENDIDO_def
      NAO_ENTREGUE_ENDERECO_INSUFICIENTE_def NAO_ENTREGUE_ENDERECO_INCORRETO_def
      TENTATIVA_ENTREGA_NAO_EFETUADA_def NAO_ENTREGUE_def SAIU_PARA_ENTREGA_def
      SAIU_PARA_ENTREGA_REMETENTE_def ENTREGA_CANCELADA_def ENCAMINHADO_RETIRADA_def
      AGUARDANDO_RETIRADA_def DIRECIONADO_UNIDADE_def CORRECAO_ROTA_def
      OBJETO_NAO_CHEGOU_UNIDADE_def EM_TRANSFERENCIA_def POSTADO_APOS_HORARIO_LIMITE_def
      POSTADO_def OBJETO_COLETADO_def CARTEIRO_SAIU_COLETA_def ETIQUETA_CANCELADA_def
      ETIQUETA_EXPIRADA_def ETIQUETA_EMITIDA_def INCONSISTENCIAS_ENDERECAMENTO_def
      DESCONSIDERAR_INFORMACAO_def SUSPENSAO_ENTREGA_def OBJETO_SERA_DEVOLVIDO_def
      CANCELADO_def DEVOLVIDO_def)

lemma sample_prazo_alone:
  "js_includes NAO_ENTREGUE_PRAZO_ENCERRADO NAO_ENTREGUE_PRAZO_ENCERRADO
   \<and> \<not> js_includes NAO_ENTREGUE_PRAZO_ENCERRADO ENTREGUE
   \<and> \<not> js_includes NAO_ENTREGUE_PRAZO_ENCERRADO ENTREGUE_REMETENTE
   \<and> \<not> js_includes NAO_ENTREGUE_PRAZO_ENCERRADO ENTREGUE_CAIXA_INTELIGENTE"
  by (simp add: js_def NAO_ENTREGUE_PRAZO_ENCERRADO_def ENTREGUE_def ENTREGUE_REMETENTE_def
      ENTREGUE_CAIXA_INTELIGENTE_def)

theorem determineStatus_ordered_witness:
  "(\<exists>r. trackCorreios
          (returning (withObjeto (sampleObjeto None
             (Some [sampleEvento ENTREGUE (js ''2024-01-02T12:00:00Z'')]))))
          sampleNow sampleCode = Inr r
        \<and> res_status r = ENTREGUE)
   \<and> determineStatus NAO_ENTREGUE_PRAZO_ENCERRADO = NAO_ENTREGUE_PRAZO_ENCERRADO
   \<and> determineStatus NAO_ENTREGUE_PRAZO_ENCERRADO \<noteq> NAO_ENTREGUE
   \<and> determineStatus (js ''Aguardando pagamento'') = EM_TRANSITO"
proof -
  let ?ev = "sampleEvento ENTREGUE (js ''2024-01-02T12:00:00Z'')"
  let ?obj = "sampleObjeto None (Some [?ev])"
  let ?W = "returning (withObjeto ?obj)"
  note at_entregue =
    determineStatus_ordered [of ?W sampleCode "withObjeto ?obj" ?obj "[]" ?ev "[]" sampleNow ENTREGUE]
  note at_prazo =
    determineStatus_ordered [of ?W sampleCode "withObjeto ?obj" ?obj "[]" ?ev "[]" sampleNow
      NAO_ENTREGUE_PRAZO_ENCERRADO]
  note at_plain =
    determineStatus_ordered [of ?W sampleCode "withObjeto ?obj" ?obj "[]" ?ev "[]" sampleNow
      "js ''Aguardando pagamento''"]
  have pre: "outcome (lookup ?W sampleCode) = Inr (withObjeto ?obj)
      \<and> objetos (withObjeto ?obj) = Some (?obj # [])
      \<and> \<not> truthy (mensagem ?obj) \<and> eventos ?obj = Some (?ev # [])"
    by (simp add: sample_lookup_returns withObjeto_def sampleObjeto_def)
  have self: "js_includes ENTREGUE ENTREGUE"
    unfolding js_includes_iff by (metis append_Nil append_Nil2)
  have "descricao ?ev = ENTREGUE" by (simp add: sampleEvento_def)
  moreover have "determineStatus ENTREGUE = ENTREGUE"
    using at_entregue [THEN conjunct2, THEN conjunct2, THEN conjunct2, THEN conjunct1] self by simp
  ultimately have a: "\<exists>r. trackCorreios ?W sampleNow sampleCode = Inr r \<and> res_status r = ENTREGUE"
    using at_entregue [THEN conjunct1] pre by simp
  have b: "determineStatus NAO_ENTREGUE_PRAZO_ENCERRADO = NAO_ENTREGUE_PRAZO_ENCERRADO"
    using at_prazo [THEN conjunct2, THEN conjunct2, THEN conjunct2, THEN conjunct2, THEN conjunct2,
        THEN conjunct1]
      sample_prazo_alone by simp
  have c: "determineStatus NAO_ENTREGUE_PRAZO_ENCERRADO \<noteq> NAO_ENTREGUE"
    using at_prazo [THEN conjunct2, THEN conjunct2, THEN conjunct2, THEN conjunct2, THEN conjunct1]
      sample_prazo_alone by simp
  have d: "determineStatus (js ''Aguardando pagamento'') = EM_TRANSITO"
    using at_plain [THEN conjunct2, THEN conjunct2, THEN conjunct2, THEN conjunct2, THEN conjunct2,
        THEN conjunct2]
      sample_plain_unmatched by simp
  from a b c d show ?thesis by simp
qed

text \<open>
  C3 as stated fails on a description that contains an earlier pattern as well: this one
  contains the pickup-window-expired pattern, and the status is delivered-to-sender.
\<close>

theorem determineStatus_two_patterns_counterexample:
  "js_includes (ENTREGUE_REMETENTE @ js '' ('' @ NAO_ENTREGUE_PRAZO_ENCERRADO @ js '')'')
       NAO_ENTREGUE_PRAZO_ENCERRADO
   \<and> determineStatus (ENTREGUE_REMETENTE @ js '' ('' @ NAO_ENTREGUE_PRAZO_ENCERRADO @ js '')'')
       \<noteq> NAO_ENTREGUE_PRAZO_ENCERRADO"
proof -
  let ?d = "ENTREGUE_REMETENTE @ js '' ('' @ NAO_ENTREGUE_PRAZO_ENCERRADO @ js '')''"
  have a: "js_includes ?d NAO_ENTREGUE_PRAZO_ENCERRADO"
    unfolding js_includes_iff by (metis append.assoc)
  have b: "js_includes ?d ENTREGUE_REMETENTE"
    unfolding js_includes_iff by (metis append_Nil)
  have c: "\<not> js_includes ?d ENTREGUE"
    by (simp add: js_def ENTREGUE_REMETENTE_def NAO_ENTREGUE_PRAZO_ENCERRADO_def ENTREGUE_def)
  have d: "ENTREGUE_REMETENTE \<noteq> NAO_ENTREGUE_PRAZO_ENCERRADO"
    by (simp add: js_def ENTREGUE_REMETENTE_def NAO_ENTREGUE_PRAZO_ENCERRADO_def)
  from b c have "determineStatus ?d = ENTREGUE_REMETENTE" by (simp add: determineStatus_def)
  with a d show ?thesis by simp
qed

subsection \<open>Objects not found and objects without events\<close>

lemma lookupFailure_no_object:
  "lookupFailure now (Error OBJETO_NAO_ENCONTRADO) =
     Inr \<lparr>res_status = ERRO_CONSULTA,
          res_events =
            [\<lparr>date = now, location = js ''Sistema'', status = js ''Erro'',
              description =
                js ''Erro ao consultar os Correios: '' @ OBJETO_NAO_ENCONTRADO
                @ js ''. Verifique o c'' @ [0xF3] @ js ''digo de rastreamento.'',
              detail = None, unitType = None, originUnit = None,
              destinationUnit = None, unitAddress = None\<rparr>],
          res_dtPrevista = None\<rparr>"
  by (simp add: lookupFailure_def)

lemma trackingResult_no_object:
  "orNil (objetos trackingData) = [] \<Longrightarrow>
   trackingResult now trackingData = Inl (Error OBJETO_NAO_ENCONTRADO)"
  by (cases "objetos trackingData") (auto simp: trackingResult_def split: list.splits)

text \<open>
  C9 (as amended). When the lookup returns and the first object of the response carries a
  message (the carrier's way of reporting that the object was not found), \<open>trackCorreios\<close>
  returns the not-found status with exactly one event, whose description is that message;
  when the first object carries no message and no events, it returns the status
  \<open>ETIQUETA_EMITIDA\<close> with an empty event list; and when the response holds no object at all
  (\<open>objetos\<close> missing or empty), it returns the lookup-error status \<open>ERRO_CONSULTA\<close> with
  exactly one event, which reports the error raised for the missing object. In the three
  cases it returns and does not throw.
\<close>

theorem trackCorreios_not_found_or_no_events:
  "(outcome (lookup world code) = Inr trackingData \<and> objetos trackingData = Some (objeto # rest)
      \<and> truthy (mensagem objeto) \<longrightarrow>
      trackCorreios world now code =
        Inr \<lparr>res_status = OBJETO_NAO_ENCONTRADO,
             res_events =
               [\<lparr>date = now, location = js ''Correios'',
                 status = js ''N'' @ [0xE3] @ js ''o encontrado'',
                 description = orEmpty (mensagem objeto),
                 detail = None, unitType = None, originUnit = None,
                 destinationUnit = None, unitAddress = None\<rparr>],
             res_dtPrevista = None\<rparr>)
   \<and> (outcome (lookup world code) = Inr trackingData \<and> objetos trackingData = Some (objeto # rest)
      \<and> \<not> truthy (mensagem objeto) \<and> orNil (eventos objeto) = [] \<longrightarrow>
      trackCorreios world now code =
        Inr \<lparr>res_status = ETIQUETA_EMITIDA, res_events = [], res_dtPrevista = dtPrevista objeto\<rparr>)
   \<and> (outcome (lookup world code) = Inr trackingData \<and> orNil (objetos trackingData) = [] \<longrightarrow>
      trackCorreios world now code =
        Inr \<lparr>res_status = ERRO_CONSULTA,
             res_events =
               [\<lparr>date = now, location = js ''Sistema'', status = js ''Erro'',
                 description =
                   js ''Erro ao consultar os Correios: '' @ OBJETO_NAO_ENCONTRADO
                   @ js ''. Verifique o c'' @ [0xF3] @ js ''digo de rastreamento.'',
                 detail = None, unitType = None, originUnit = None,
                 destinationUnit = None, unitAddress = None\<rparr>],
             res_dtPrevista = None\<rparr>)"
proof (intro conjI impI)
  assume "outcome (lookup world code) = Inr trackingData \<and> objetos trackingData = Some (objeto # rest)
      \<and> truthy (mensagem objeto)"
  then show "trackCorreios world now code =
        Inr \<lparr>res_status = OBJETO_NAO_ENCONTRADO,
             res_events =
               [\<lparr>date = now, location = js ''Correios'',
                 status = js ''N'' @ [0xE3] @ js ''o encontrado'',
                 description = orEmpty (mensagem objeto),
                 detail = None, unitType = None, originUnit = None,
                 destinationUnit = None, unitAddress = None\<rparr>],
             res_dtPrevista = None\<rparr>"
    by (simp add: trackCorreios_def trackingResult_def)
next
  assume "outcome (lookup world code) = Inr trackingData \<and> objetos trackingData = Some (objeto # rest)
      \<and> \<not> truthy (mensagem objeto) \<and> orNil (eventos objeto) = []"
  then show "trackCorreios world now code =
        Inr \<lparr>res_status = ETIQUETA_EMITIDA, res_events = [], res_dtPrevista = dtPrevista objeto\<rparr>"
    by (simp add: trackCorreios_def trackingResult_def)
next
  assume a: "outcome (lookup world code) = Inr trackingData \<and> orNil (objetos trackingData) = []"
  then have "trackCorreios world now code = lookupFailure now (Error OBJETO_NAO_ENCONTRADO)"
    by (simp add: trackCorreios_def trackingResult_no_object)
  then show "trackCorreios world now code =
        Inr \<lparr>res_status = ERRO_CONSULTA,
             res_events =
               [\<lparr>date = now, location = js ''Sistema'', status = js ''Erro'',
                 description =
                   js ''Erro ao consultar os Correios: '' @ OBJETO_NAO_ENCONTRADO
                   @ js ''. Verifique o c'' @ [0xF3] @ js ''digo de rastreamento.'',
                 detail = None, unitType = None, originUnit = None,
                 destinationUnit = None, unitAddress = None\<rparr>],
             res_dtPrevista = None\<rparr>"
    by (simp only: lookupFailure_no_object)
qed

theorem trackCorreios_not_found_or_no_events_witness:
  "trackCorreios (returning (withObjeto (sampleObjeto (Some (js ''SRO-020: Objeto nao encontrado'')) None)))
      sampleNow sampleCode =
     Inr \<lparr>res_status = OBJETO_NAO_ENCONTRADO,
          res_events =
            [\<lparr>date = sampleNow, location = js ''Correios'',
              status = js ''N'' @ [0xE3] @ js ''o encontrado'',
              description = js ''SRO-020: Objeto nao encontrado'',
              detail = None, unitType = None, originUnit = None,
              destinationUnit = None, unitAddress = None\<rparr>],
          res_dtPrevista = None\<rparr>
   \<and> trackCorreios (returning (withObjeto (sampleObjeto None (Some [])))) sampleNow sampleCode =
     Inr \<lparr>res_status = ETIQUETA_EMITIDA, res_events = [], res_dtPrevista = None\<rparr>
   \<and> res_status (projr (trackCorreios (returning noObjeto) sampleNow sampleCode)) = ERRO_CONSULTA
   \<and> length (res_events (projr (trackCorreios (returning noObjeto) sampleNow sampleCode))) = 1"
proof -
  let ?nf = "sampleObjeto (Some (js ''SRO-020: Objeto nao encontrado'')) None"
  let ?ne = "sampleObjeto None (Some [])"
  have nf: "outcome (lookup (returning (withObjeto ?nf)) sampleCode) = Inr (withObjeto ?nf)
      \<and> objetos (withObjeto ?nf) = Some (?nf # []) \<and> truthy (mensagem ?nf)"
    by (simp add: sample_lookup_returns withObjeto_def sampleObjeto_def js_def)
  have ne: "outcome (lookup (returning (withObjeto ?ne)) sampleCode) = Inr (withObjeto ?ne)
      \<and> objetos (withObjeto ?ne) = Some (?ne # [])
      \<and> \<not> truthy (mensagem ?ne) \<and> orNil (eventos ?ne) = []"
    by (simp add: sample_lookup_returns withObjeto_def sampleObjeto_def)
  have no: "outcome (lookup (returning noObjeto) sampleCode) = Inr noObjeto
      \<and> orNil (objetos noObjeto) = []"
    by (simp add: sample_lookup_returns noObjeto_def)
  have m: "orEmpty (mensagem ?nf) = js ''SRO-020: Objeto nao encontrado''"
    and d: "dtPrevista ?ne = None"
    by (simp_all add: sampleObjeto_def)
  note at_nf = trackCorreios_not_found_or_no_events
      [of "returning (withObjeto ?nf)" sampleCode "withObjeto ?nf" ?nf "[]" sampleNow,
       THEN conjunct1]
  note at_ne = trackCorreios_not_found_or_no_events
      [of "returning (withObjeto ?ne)" sampleCode "withObjeto ?ne" ?ne "[]" sampleNow,
       THEN conjunct2, THEN conjunct1]
  note at_no = trackCorreios_not_found_or_no_events
      [of "returning noObjeto" sampleCode noObjeto ?nf "[]" sampleNow,
       THEN conjunct2, THEN conjunct2]
  from no at_no have r: "trackCorreios (returning noObjeto) sampleNow sampleCode =
        Inr \<lparr>res_status = ERRO_CONSULTA,
             res_events =
               [\<lparr>date = sampleNow, location = js ''Sistema'', status = js ''Erro'',
                 description =
                   js ''Erro ao consultar os Correios: '' @ OBJETO_NAO_ENCONTRADO
                   @ js ''. Verifique o c'' @ [0xF3] @ js ''digo de rastreamento.'',
                 detail = None, unitType = None, originUnit = None,
                 destinationUnit = None, unitAddress = None\<rparr>],
             res_dtPrevista = None\<rparr>"
    by blast
  have "res_status (projr (trackCorreios (returning noObjeto) sampleNow sampleCode)) = ERRO_CONSULTA"
    and "length (res_events (projr (trackCorreios (returning noObjeto) sampleNow sampleCode))) = 1"
    by (simp_all add: r)
  with nf ne at_nf at_ne show ?thesis unfolding m d by blast
qed

text \<open>
  C9 as stated fails for a response that reports no object by holding none: the result has
  the lookup-error status, not the not-found status, and its one event reports an error.
\<close>

theorem trackCorreios_no_object_counterexample:
  "trackCorreios (returning noObjeto) sampleNow sampleCode =
     Inr \<lparr>res_status = ERRO_CONSULTA,
          res_events =
            [\<lparr>date = sampleNow, location = js ''Sistema'', status = js ''Erro'',
              description =
                js ''Erro ao consultar os Correios: '' @ OBJETO_NAO_ENCONTRADO
                @ js ''. Verifique o c'' @ [0xF3] @ js ''digo de rastreamento.'',
              detail = None, unitType = None, originUnit = None,
              destinationUnit = None, unitAddress = None\<rparr>],
          res_dtPrevista = None\<rparr>
   \<and> ERRO_CONSULTA \<noteq> OBJETO_NAO_ENCONTRADO"
proof -
  have "trackingResult sampleNow noObjeto = Inl (Error OBJETO_NAO_ENCONTRADO)"
    by (simp add: trackingResult_no_object noObjeto_def)
  then have "trackCorreios (returning noObjeto) sampleNow sampleCode =
      lookupFailure sampleNow (Error OBJETO_NAO_ENCONTRADO)"
    by (simp add: trackCorreios_def sample_lookup_returns)
  moreover have "ERRO_CONSULTA \<noteq> OBJETO_NAO_ENCONTRADO"
    by (simp add: ERRO_CONSULTA_def OBJETO_NAO_ENCONTRADO_def js_def)
  ultimately show ?thesis by (simp only: lookupFailure_no_object) simp
qed

subsection \<open>What \<open>trackCorreios\<close> throws and what it turns into a result\<close>

lemma temporary_not_permanent: "isTemporary e \<Longrightarrow> \<not> isPermanent e"
  by (cases e) auto

text \<open>With three attempts allowed, an error that is not permanent leaves the retry loop
  only from the third attempt.\<close>

lemma retry3_surviving_error:
  assumes out: "outcome (retry_loop fn 3 initD maxD mult cb 1 None 0 [] []) = Inl e"
    and np: "\<not> isPermanent e" and q: "quiet cb"
  shows "calls (retry_loop fn 3 initD maxD mult cb 1 None 0 [] []) = 3"
proof (cases "fn 0")
  case (Inr v)
  then show ?thesis using out by (simp add: retry_loop_success)
next
  case e0: (Inl e0)
  show ?thesis
  proof (cases "isPermanent e0")
    case True
    then show ?thesis using out np e0 by (simp add: retry_loop_permanent)
  next
    case p0: False
    from e0 p0 q retry_loop_retry [of 1 3 fn 0 e0 cb initD maxD mult None "[]" "[]"]
    obtain rl1 where s1: "retry_loop fn 3 initD maxD mult cb 1 None 0 [] [] =
        retry_loop fn 3 initD maxD mult cb 2 (Some e0) 1 [backoffDelay initD mult maxD 1] rl1"
      by auto
    show ?thesis
    proof (cases "fn 1")
      case (Inr v)
      then show ?thesis using out unfolding s1 by (simp add: retry_loop_success)
    next
      case e1: (Inl e1)
      show ?thesis
      proof (cases "isPermanent e1")
        case True
        then show ?thesis using out np e1 unfolding s1 by (simp add: retry_loop_permanent)
      next
        case p1: False
        from e1 p1 q retry_loop_retry [of 2 3 fn 1 e1 cb initD maxD mult "Some e0"
              "[backoffDelay initD mult maxD 1]" rl1]
        obtain rl2 where s2: "retry_loop fn 3 initD maxD mult cb 2 (Some e0) 1
              [backoffDelay initD mult maxD 1] rl1 =
            retry_loop fn 3 initD maxD mult cb 3 (Some e1) 2
              ([backoffDelay initD mult maxD 1] @ [backoffDelay initD mult maxD 2]) rl2"
          by (auto simp: numeral_2_eq_2)
        show ?thesis
        proof (cases "fn 2")
          case (Inr v)
          then show ?thesis using out unfolding s1 s2 by (simp add: retry_loop_success)
        next
          case (Inl e2)
          then show ?thesis unfolding s1 s2
            using retry_loop_last [of fn 2 e2 3 initD maxD mult cb "Some e1"] by simp
        qed
      qed
    qed
  qed
qed

lemma quiet_trackCorreios_options: "quiet (onRetry trackCorreios_options)"
  by (simp add: quiet_def trackCorreios_options_def)

lemma lookup_surviving_error:
  "outcome (lookup world code) = Inl e \<Longrightarrow> isTemporary e \<Longrightarrow> calls (lookup world code) = 3"
  unfolding lookup_def retryWithBackoff_def
  using quiet_trackCorreios_options
  by (simp add: trackCorreios_options_def maxAttemptsOf_def retry3_surviving_error
      temporary_not_permanent)

lemma lookupFailure_throws: "lookupFailure now e = Inl e' \<longleftrightarrow> e' = e \<and> isTemporary e"
  by (auto simp: lookupFailure_def)

lemma trackingResult_throws:
  "trackingResult now trackingData = Inl e \<Longrightarrow> e = Error OBJETO_NAO_ENCONTRADO"
  by (auto simp: trackingResult_def split: option.splits list.splits if_splits)

lemma trackCorreios_throws:
  "trackCorreios world now code = Inl e \<longleftrightarrow> outcome (lookup world code) = Inl e \<and> isTemporary e"
proof (cases "outcome (lookup world code)")
  case (Inl e0)
  then show ?thesis by (auto simp: trackCorreios_def lookupFailure_throws)
next
  case (Inr trackingData)
  show ?thesis
  proof (cases "trackingResult now trackingData")
    case (Inl e0)
    then have "e0 = Error OBJETO_NAO_ENCONTRADO" by (rule trackingResult_throws)
    then show ?thesis using Inr Inl by (simp add: trackCorreios_def lookupFailure_def)
  next
    case r: (Inr r)
    then show ?thesis using Inr by (simp add: trackCorreios_def)
  qed
qed

lemma lookupFailure_synthesized:
  "\<not> isTemporary e \<Longrightarrow>
   \<exists>event. lookupFailure now e =
     Inr \<lparr>res_status = ERRO_CONSULTA, res_events = [event], res_dtPrevista = None\<rparr>"
  by (simp add: lookupFailure_def)

text \<open>
  C1. For every tracking code, \<open>trackCorreios\<close> throws exactly when the lookup ends with a
  TEMPORARY ClassifiedError, and that error has then used all three attempts. When the
  lookup ends with any other error (a PERMANENT ClassifiedError or an unclassified value),
  and when the response has no object, it returns the status \<open>ERRO_CONSULTA\<close> ("Erro na
  consulta") with exactly one event.
\<close>

theorem trackCorreios_error_policy:
  "(trackCorreios world now code = Inl e
      \<longleftrightarrow> outcome (lookup world code) = Inl e \<and> isTemporary e)
   \<and> (outcome (lookup world code) = Inl e \<and> isTemporary e \<longrightarrow> calls (lookup world code) = 3)
   \<and> (outcome (lookup world code) = Inl e \<and> \<not> isTemporary e \<longrightarrow>
        (\<exists>event. trackCorreios world now code =
           Inr \<lparr>res_status = ERRO_CONSULTA, res_events = [event], res_dtPrevista = None\<rparr>))
   \<and> (outcome (lookup world code) = Inr trackingData \<and> trackingResult now trackingData = Inl e \<longrightarrow>
        (\<exists>event. trackCorreios world now code =
           Inr \<lparr>res_status = ERRO_CONSULTA, res_events = [event], res_dtPrevista = None\<rparr>))"
proof (intro conjI impI)
  show "trackCorreios world now code = Inl e
      \<longleftrightarrow> outcome (lookup world code) = Inl e \<and> isTemporary e"
    by (rule trackCorreios_throws)
next
  assume "outcome (lookup world code) = Inl e \<and> isTemporary e"
  then show "calls (lookup world code) = 3" by (simp add: lookup_surviving_error)
next
  assume "outcome (lookup world code) = Inl e \<and> \<not> isTemporary e"
  then show "\<exists>event. trackCorreios world now code =
           Inr \<lparr>res_status = ERRO_CONSULTA, res_events = [event], res_dtPrevista = None\<rparr>"
    using lookupFailure_synthesized [of e now] by (simp add: trackCorreios_def)
next
  assume a: "outcome (lookup world code) = Inr trackingData \<and> trackingResult now trackingData = Inl e"
  then have "e = Error OBJETO_NAO_ENCONTRADO" using trackingResult_throws [of now trackingData e] by blast
  then have "\<not> isTemporary e" by simp
  then show "\<exists>event. trackCorreios world now code =
           Inr \<lparr>res_status = ERRO_CONSULTA, res_events = [event], res_dtPrevista = None\<rparr>"
    using a lookupFailure_synthesized [of e now] by (simp add: trackCorreios_def)
qed

lemma lookup_permanent:
  "fetchTrackingData world code 0 = Inl e \<Longrightarrow> isPermanent e \<Longrightarrow>
   outcome (lookup world code) = Inl e \<and> calls (lookup world code) = 1"
  unfolding lookup_def retryWithBackoff_def
  by (simp add: trackCorreios_options_def maxAttemptsOf_def retry_loop_permanent)

lemma lookup_exhausted:
  assumes "\<forall>k. fetchTrackingData world code k = Inl e" and "\<not> isPermanent e"
  shows "outcome (lookup world code) = Inl e \<and> calls (lookup world code) = 3"
proof -
  let ?fn = "fetchTrackingData world code"
  let ?i = "initialDelayOf trackCorreios_options"
  let ?d = "maxDelayOf trackCorreios_options"
  let ?m = "backoffMultiplierOf trackCorreios_options"
  let ?cb = "onRetry trackCorreios_options"
  have fails: "\<forall>k. \<exists>e'. ?fn k = Inl e' \<and> \<not> isPermanent e'"
    using assms by blast
  have three: "(1::int) \<le> 3" by simp
  have l: "lookup world code = retry_loop ?fn (of_int 3) ?i ?d ?m ?cb 1 None 0 [] []"
    by (simp add: lookup_def retryWithBackoff_def maxAttemptsOf_def trackCorreios_options_def)
  from three quiet_trackCorreios_options fails retry_exhausted [of 3 ?cb ?fn ?i ?d ?m]
  obtain rl' where r: "retry_loop ?fn (of_int 3) ?i ?d ?m ?cb 1 None 0 [] [] =
      \<lparr>outcome = ?fn (nat 3 - 1), calls = nat 3,
       slept = map (backoffDelay ?i ?m ?d) [1..3 - 1], retried = rl'\<rparr>"
    by blast
  show ?thesis unfolding l r using assms(1) by simp
qed

lemma answering_fetch:
  "\<not> (200 \<le> st \<and> st \<le> 299) \<Longrightarrow>
   fetchTrackingData (answering st body) code k =
     Inl (classifyHttpError st (js ''Erro ao consultar rastreamento: '' @ decimal st @ js '' - '' @ body))"
  by (simp add: fetchTrackingData_def fetchTrackingData_try_def answering_def http_ok_def
      classifyHttpError_def)

lemma lookup_503:
  "outcome (lookup (answering 503 body) code) =
     Inl (ClassifiedError (js ''Erro ao consultar rastreamento: '' @ decimal 503 @ js '' - '' @ body)
            TEMPORARY None)
   \<and> calls (lookup (answering 503 body) code) = 3"
  by (rule lookup_exhausted) (simp_all add: answering_fetch classifyHttpError_def)

lemma lookup_404:
  "outcome (lookup (answering 404 body) code) =
     Inl (ClassifiedError (js ''Erro ao consultar rastreamento: '' @ decimal 404 @ js '' - '' @ body)
            PERMANENT None)
   \<and> calls (lookup (answering 404 body) code) = 1"
  by (rule lookup_permanent) (simp_all add: answering_fetch classifyHttpError_def)

theorem trackCorreios_error_policy_witness:
  "trackCorreios (answering 503 (js ''Service Unavailable'')) sampleNow sampleCode =
     Inl (ClassifiedError
            (js ''Erro ao consultar rastreamento: '' @ decimal 503 @ js '' - Service Unavailable'')
            TEMPORARY None)
   \<and> calls (lookup (answering 503 (js ''Service Unavailable'')) sampleCode) = 3
   \<and> (\<exists>event. trackCorreios (answering 404 (js ''Not Found'')) sampleNow sampleCode =
         Inr \<lparr>res_status = ERRO_CONSULTA, res_events = [event], res_dtPrevista = None\<rparr>)
   \<and> (\<exists>event. trackCorreios
           (returning \<lparr>versao = js ''1.0'', quantidade = 0, objetos = Some [],
                       tipoResultado = js ''Todos''\<rparr>) sampleNow sampleCode =
         Inr \<lparr>res_status = ERRO_CONSULTA, res_events = [event], res_dtPrevista = None\<rparr>)"
proof -
  let ?t = "ClassifiedError
      (js ''Erro ao consultar rastreamento: '' @ decimal 503 @ js '' - '' @ js ''Service Unavailable'')
      TEMPORARY None"
  let ?p = "ClassifiedError
      (js ''Erro ao consultar rastreamento: '' @ decimal 404 @ js '' - '' @ js ''Not Found'')
      PERMANENT None"
  let ?empty = "\<lparr>versao = js ''1.0'', quantidade = 0, objetos = Some [], tipoResultado = js ''Todos''\<rparr>"
  have t: "outcome (lookup (answering 503 (js ''Service Unavailable'')) sampleCode) = Inl ?t
      \<and> isTemporary ?t"
    using lookup_503 by simp
  have p: "outcome (lookup (answering 404 (js ''Not Found'')) sampleCode) = Inl ?p
      \<and> \<not> isTemporary ?p"
    using lookup_404 by simp
  have e: "outcome (lookup (returning ?empty) sampleCode) = Inr ?empty
      \<and> trackingResult sampleNow ?empty = Inl (Error OBJETO_NAO_ENCONTRADO)"
    by (simp add: sample_lookup_returns trackingResult_def)
  note at_t = trackCorreios_error_policy
    [of "answering 503 (js ''Service Unavailable'')" sampleNow sampleCode ?t]
  note at_p = trackCorreios_error_policy
    [of "answering 404 (js ''Not Found'')" sampleNow sampleCode ?p]
  note at_e = trackCorreios_error_policy
    [of "returning ?empty" sampleNow sampleCode "Error OBJETO_NAO_ENCONTRADO" ?empty]
  have a: "trackCorreios (answering 503 (js ''Service Unavailable'')) sampleNow sampleCode = Inl ?t"
    using at_t [THEN conjunct1] t by blast
  have b: "calls (lookup (answering 503 (js ''Service Unavailable'')) sampleCode) = 3"
    using at_t [THEN conjunct2, THEN conjunct1] t by blast
  have c: "\<exists>event. trackCorreios (answering 404 (js ''Not Found'')) sampleNow sampleCode =
         Inr \<lparr>res_status = ERRO_CONSULTA, res_events = [event], res_dtPrevista = None\<rparr>"
    using at_p [THEN conjunct2, THEN conjunct2, THEN conjunct1] p by blast
  have d: "\<exists>event. trackCorreios (returning ?empty) sampleNow sampleCode =
         Inr \<lparr>res_status = ERRO_CONSULTA, res_events = [event], res_dtPrevista = None\<rparr>"
    using at_e [THEN conjunct2, THEN conjunct2, THEN conjunct2] e by blast
  have j: "js '' - '' @ js ''Service Unavailable'' = js '' - Service Unavailable''"
    by (simp add: js_def)
  from a b c d show ?thesis unfolding j by simp
qed

subsection \<open>Detecting new events\<close>

lemma anyNewSignature_sigs:
  "eventSignatures toISOString es = Inr ss \<Longrightarrow>
   anyNewSignature toISOString olds es = Inr (\<exists>s \<in> set ss. s \<notin> set olds)"
proof (induction es arbitrary: ss)
  case Nil
  then show ?case by simp
next
  case (Cons e es)
  from Cons.prems obtain s ss' where s: "createEventSignature toISOString e = Inr s"
    and ss': "eventSignatures toISOString es = Inr ss'" and ss: "ss = s # ss'"
    by (auto split: sum.splits)
  from Cons.IH [OF ss'] show ?case using s ss by auto
qed

lemma hasNewEvents_sigs:
  assumes "length oldEvents = length newEvents"
    and "eventSignatures toISOString oldEvents = Inr olds"
    and "eventSignatures toISOString newEvents = Inr news"
  shows "hasNewEvents toISOString oldEvents newEvents = Inr (\<exists>s \<in> set news. s \<notin> set olds)"
proof (cases "newEvents = []")
  case True
  then show ?thesis using assms by (simp add: hasNewEvents_def)
next
  case False
  then show ?thesis using assms by (simp add: hasNewEvents_def anyNewSignature_sigs)
qed






subsection \<open>What a pass persists\<close>

lemma recordFailure_keeps:
  "table (recordFailure e st) = table st" "dispatched (recordFailure e st) = dispatched st"
  by (simp_all add: recordFailure_def Let_def)

lemma hasNewEvents_same: "hasNewEvents toISOString xs xs \<noteq> Inr True"
proof (cases "eventSignatures toISOString xs")
  case (Inl e)
  then show ?thesis by (cases xs) (auto simp: hasNewEvents_def)
next
  case (Inr ss)
  then show ?thesis using hasNewEvents_sigs [of xs xs toISOString ss ss] by simp
qed

text \<open>The row that \<open>updateStatus\<close> writes over \<open>tracking\<close>.\<close>

lemma execute_writes:
  assumes row: "tbl (trackingCode tracking) = Some tracking"
    and ev: "hasNewEvents toISOString (events tracking) evs = Inr changed"
  shows "fst (snd (execute toISOString now tbl
            \<lparr>req_trackingCode = trackingCode tracking, req_newStatus = st', req_events = evs,
             req_dtExpected = dt\<rparr>)) =
         tbl(trackingCode tracking \<mapsto>
           tracking\<lparr>currentStatus := st', events := evs, updatedAt := Some now,
                    dtExpected := (if truthy dt then dt else dtExpected tracking)\<rparr>)"
  using assms
  by (simp add: execute_def findByTrackingCode_def updateStatus_def Let_def split: sum.splits)

lemma recordSuccess_table:
  assumes row: "table st (trackingCode tracking) = Some tracking"
    and ev: "hasNewEvents toISOString (events tracking) (res_events trackingData) = Inr changed"
  shows "table (recordSuccess toISOString now tracking trackingData st) =
     (if res_status trackingData \<noteq> currentStatus tracking \<or> changed
      then (table st)(trackingCode tracking \<mapsto>
             tracking\<lparr>currentStatus := res_status trackingData, events := res_events trackingData,
                      updatedAt := Some now,
                      dtExpected := (if truthy (res_dtPrevista trackingData)
                                     then res_dtPrevista trackingData else dtExpected tracking)\<rparr>)
      else table st)"
proof (cases "res_status trackingData \<noteq> currentStatus tracking \<or> changed")
  case False
  then show ?thesis using ev by (simp add: recordSuccess_def Let_def)
next
  case True
  let ?req = "\<lparr>req_trackingCode = trackingCode tracking, req_newStatus = res_status trackingData,
      req_events = res_events trackingData, req_dtExpected = res_dtPrevista trackingData\<rparr>"
  obtain r tbl' sent where x: "execute toISOString now (table st) ?req = (r, tbl', sent)"
    by (cases "execute toISOString now (table st) ?req") auto
  have w: "tbl' = (table st)(trackingCode tracking \<mapsto>
             tracking\<lparr>currentStatus := res_status trackingData, events := res_events trackingData,
                      updatedAt := Some now,
                      dtExpected := (if truthy (res_dtPrevista trackingData)
                                     then res_dtPrevista trackingData else dtExpected tracking)\<rparr>)"
    using execute_writes [of "table st" tracking toISOString "res_events trackingData" changed now
        "res_status trackingData" "res_dtPrevista trackingData"] row ev x
    by simp
  show ?thesis
    using True ev x w
    by (cases r) (auto simp: recordSuccess_def Let_def recordFailure_keeps)
qed

lemma recordSuccess_frame:
  assumes "c \<noteq> trackingCode tracking"
  shows "table (recordSuccess toISOString now tracking trackingData st) c = table st c"
proof -
  let ?req = "\<lparr>req_trackingCode = trackingCode tracking, req_newStatus = res_status trackingData,
      req_events = res_events trackingData, req_dtExpected = res_dtPrevista trackingData\<rparr>"
  obtain r tbl' sent where x: "execute toISOString now (table st) ?req = (r, tbl', sent)"
    by (cases "execute toISOString now (table st) ?req") auto
  have "tbl' c = table st c"
    using x assms
    by (auto simp: execute_def findByTrackingCode_def updateStatus_def Let_def
        split: option.splits sum.splits if_splits)
  then show ?thesis
    using x
    by (cases r) (auto simp: recordSuccess_def Let_def recordFailure_keeps split: sum.splits)
qed

lemma processRecord_frame:
  "c \<noteq> trackingCode tracking \<Longrightarrow>
   table (processRecord toISOString now found tracking st) c = table st c"
  by (cases found) (simp_all add: processRecord_def recordFailure_keeps recordSuccess_frame)

text \<open>One iteration leaves in the row of its record what \<open>rowAfter\<close> says.\<close>

lemma processRecord_row:
  assumes row: "table st (trackingCode tracking) = Some tracking"
  shows "table (processRecord toISOString now found tracking st) (trackingCode tracking) =
     Some (rowAfter toISOString now found tracking)"
proof (cases found)
  case (Inl e)
  then show ?thesis using row by (simp add: processRecord_def recordFailure_keeps rowAfter_def)
next
  case (Inr trackingData)
  show ?thesis
  proof (cases "hasNewEvents toISOString (events tracking) (res_events trackingData)")
    case (Inl e)
    then show ?thesis using Inr row
      by (simp add: processRecord_def recordSuccess_def Let_def recordFailure_keeps rowAfter_def)
  next
    case changed: (Inr changed)
    show ?thesis
      using Inr changed row recordSuccess_table [OF row changed, of now]
      by (simp add: processRecord_def rowAfter_def writtenRow_def)
  qed
qed

text \<open>The loop, over records with distinct codes whose rows are as the pass read them.\<close>

lemma processLoop_rows:
  assumes "distinct (map trackingCode trackings)"
    and "\<forall>t \<in> set trackings. table st (trackingCode t) = Some t"
  shows "(\<forall>t \<in> set trackings.
            table (processLoop toISOString world now trackings st) (trackingCode t) =
              Some (rowAfter toISOString now (trackCorreios world now (trackingCode t)) t))
         \<and> (\<forall>c. c \<notin> trackingCode ` set trackings \<longrightarrow>
               table (processLoop toISOString world now trackings st) c = table st c)"
  using assms
proof (induction trackings arbitrary: st)
  case Nil
  then show ?case by simp
next
  case (Cons t ts)
  let ?st = "processRecord toISOString now (trackCorreios world now (trackingCode t)) t st"
  have d: "distinct (map trackingCode ts)" and fresh: "trackingCode t \<notin> trackingCode ` set ts"
    using Cons.prems(1) by simp_all
  have rows: "\<forall>u \<in> set ts. table ?st (trackingCode u) = Some u"
  proof
    fix u assume u: "u \<in> set ts"
    then have "trackingCode u \<noteq> trackingCode t" using fresh by (metis imageI)
    then have "table ?st (trackingCode u) = table st (trackingCode u)"
      by (rule processRecord_frame)
    then show "table ?st (trackingCode u) = Some u" using Cons.prems(2) u by simp
  qed
  from Cons.IH [OF d rows]
  have ih1: "\<forall>u \<in> set ts.
            table (processLoop toISOString world now ts ?st) (trackingCode u) =
              Some (rowAfter toISOString now (trackCorreios world now (trackingCode u)) u)"
    and ih2: "\<forall>c. c \<notin> trackingCode ` set ts \<longrightarrow>
               table (processLoop toISOString world now ts ?st) c = table ?st c"
    by blast+
  have here: "table ?st (trackingCode t) =
      Some (rowAfter toISOString now (trackCorreios world now (trackingCode t)) t)"
    using Cons.prems(2) by (simp add: processRecord_row)
  have first: "table (processLoop toISOString world now (t # ts) st) (trackingCode t) =
      Some (rowAfter toISOString now (trackCorreios world now (trackingCode t)) t)"
    using ih2 fresh here by simp
  have others: "\<forall>c. c \<notin> trackingCode ` set (t # ts) \<longrightarrow>
               table (processLoop toISOString world now (t # ts) st) c = table st c"
  proof (intro allI impI)
    fix c assume c: "c \<notin> trackingCode ` set (t # ts)"
    then have "c \<notin> trackingCode ` set ts" and "c \<noteq> trackingCode t" by auto
    then show "table (processLoop toISOString world now (t # ts) st) c = table st c"
      using ih2 by (simp add: processRecord_frame)
  qed
  show ?case using first ih1 others by simp
qed

lemma processTrackings_rows:
  assumes "distinct (map trackingCode trackings)"
    and "\<forall>t \<in> set trackings. table0 (trackingCode t) = Some t"
  shows "(\<forall>t \<in> set trackings.
            table (processTrackings toISOString world now table0 trackings) (trackingCode t) =
              Some (rowAfter toISOString now (trackCorreios world now (trackingCode t)) t))
         \<and> (\<forall>c. c \<notin> trackingCode ` set trackings \<longrightarrow>
               table (processTrackings toISOString world now table0 trackings) c = table0 c)"
  unfolding processTrackings_def
  using processLoop_rows [OF assms(1), of
      "\<lparr>table = table0, dispatched = [], consecutiveFailures = 0, successCount = 0,
        errorCount = 0, updatedCount = 0, skippedCount = 0, waited = []\<rparr>"
      toISOString world now] assms(2)
  by simp

text \<open>A written row is never the record it overwrites: a status that differs shows in the
  row, and a list of events compared with itself holds nothing new.\<close>

lemma writtenRow_differs:
  assumes "hasNewEvents toISOString (events tracking) (res_events trackingData) = Inr changed"
    and "res_status trackingData \<noteq> currentStatus tracking \<or> changed"
  shows "writtenRow now tracking trackingData \<noteq> tracking"
proof
  assume eq: "writtenRow now tracking trackingData = tracking"
  then have "currentStatus (writtenRow now tracking trackingData) = currentStatus tracking"
    and "events (writtenRow now tracking trackingData) = events tracking"
    by simp_all
  then have s: "res_status trackingData = currentStatus tracking"
    and ev: "res_events trackingData = events tracking"
    by (simp_all add: writtenRow_def)
  from assms(2) s have "changed" by simp
  with assms(1) ev show False using hasNewEvents_same [of toISOString "events tracking"] by simp
qed

text \<open>
  C7 (as amended). In a pass over records with distinct tracking codes whose rows are as
  the pass read them, each record ends the pass as follows. When its lookup threw (a
  TEMPORARY error after the retries), its row is unchanged. When its lookup returned a
  result (a real one or the lookup-error one) and the comparison of the stored events with
  the new ones threw, because a date it normalises is not a date, its row is unchanged.
  When its lookup returned a result and the comparison returned, its row is overwritten
  with the new status, events, update time and expected date exactly when the new status
  differs from the record's or the comparison is true, and is unchanged otherwise. No
  other row of the table changes.
\<close>

theorem processTrackings_persistence:
  "distinct (map trackingCode trackings)
     \<and> (\<forall>t \<in> set trackings. table0 (trackingCode t) = Some t) \<longrightarrow>
   (\<forall>t \<in> set trackings.
      (\<forall>e. trackCorreios world now (trackingCode t) = Inl e \<longrightarrow>
         table (processTrackings toISOString world now table0 trackings) (trackingCode t) = Some t)
      \<and> (\<forall>trackingData e.
           trackCorreios world now (trackingCode t) = Inr trackingData
           \<and> hasNewEvents toISOString (events t) (res_events trackingData) = Inl e \<longrightarrow>
         table (processTrackings toISOString world now table0 trackings) (trackingCode t) = Some t)
      \<and> (\<forall>trackingData changed.
           trackCorreios world now (trackingCode t) = Inr trackingData
           \<and> hasNewEvents toISOString (events t) (res_events trackingData) = Inr changed \<longrightarrow>
         table (processTrackings toISOString world now table0 trackings) (trackingCode t) =
           Some (if res_status trackingData \<noteq> currentStatus t \<or> changed
                 then writtenRow now t trackingData else t)
         \<and> (table (processTrackings toISOString world now table0 trackings) (trackingCode t) \<noteq> Some t
              \<longleftrightarrow> res_status trackingData \<noteq> currentStatus t \<or> changed)))
   \<and> (\<forall>code. code \<notin> trackingCode ` set trackings \<longrightarrow>
         table (processTrackings toISOString world now table0 trackings) code = table0 code)"
proof (intro impI)
  assume a: "distinct (map trackingCode trackings)
     \<and> (\<forall>t \<in> set trackings. table0 (trackingCode t) = Some t)"
  let ?final = "table (processTrackings toISOString world now table0 trackings)"
  from a processTrackings_rows [of trackings table0 toISOString world now]
  have rows: "\<forall>t \<in> set trackings.
      ?final (trackingCode t) = Some (rowAfter toISOString now (trackCorreios world now (trackingCode t)) t)"
    and frame: "\<forall>c. c \<notin> trackingCode ` set trackings \<longrightarrow> ?final c = table0 c"
    by blast+
  have each: "(\<forall>e. trackCorreios world now (trackingCode t) = Inl e \<longrightarrow> ?final (trackingCode t) = Some t)
      \<and> (\<forall>trackingData e.
           trackCorreios world now (trackingCode t) = Inr trackingData
           \<and> hasNewEvents toISOString (events t) (res_events trackingData) = Inl e \<longrightarrow>
         ?final (trackingCode t) = Some t)
      \<and> (\<forall>trackingData changed.
           trackCorreios world now (trackingCode t) = Inr trackingData
           \<and> hasNewEvents toISOString (events t) (res_events trackingData) = Inr changed \<longrightarrow>
         ?final (trackingCode t) =
           Some (if res_status trackingData \<noteq> currentStatus t \<or> changed
                 then writtenRow now t trackingData else t)
         \<and> (?final (trackingCode t) \<noteq> Some t
              \<longleftrightarrow> res_status trackingData \<noteq> currentStatus t \<or> changed))"
    if t: "t \<in> set trackings" for t
  proof (intro conjI allI impI)
    fix e assume "trackCorreios world now (trackingCode t) = Inl e"
    then show "?final (trackingCode t) = Some t" using rows t by (simp add: rowAfter_def)
  next
    fix trackingData e
    assume "trackCorreios world now (trackingCode t) = Inr trackingData
           \<and> hasNewEvents toISOString (events t) (res_events trackingData) = Inl e"
    then show "?final (trackingCode t) = Some t" using rows t by (simp add: rowAfter_def)
  next
    fix trackingData changed
    assume b: "trackCorreios world now (trackingCode t) = Inr trackingData
           \<and> hasNewEvents toISOString (events t) (res_events trackingData) = Inr changed"
    then show r: "?final (trackingCode t) =
           Some (if res_status trackingData \<noteq> currentStatus t \<or> changed
                 then writtenRow now t trackingData else t)"
      using rows t by (simp add: rowAfter_def)
    show "?final (trackingCode t) \<noteq> Some t
              \<longleftrightarrow> res_status trackingData \<noteq> currentStatus t \<or> changed"
    proof (cases "res_status trackingData \<noteq> currentStatus t \<or> changed")
      case True
      then have "writtenRow now t trackingData \<noteq> t"
        using b writtenRow_differs [of toISOString t trackingData changed now] by blast
      then show ?thesis using r True by simp
    next
      case False
      then show ?thesis using r by simp
    qed
  qed
  show "(\<forall>t \<in> set trackings.
      (\<forall>e. trackCorreios world now (trackingCode t) = Inl e \<longrightarrow> ?final (trackingCode t) = Some t)
      \<and> (\<forall>trackingData e.
           trackCorreios world now (trackingCode t) = Inr trackingData
           \<and> hasNewEvents toISOString (events t) (res_events trackingData) = Inl e \<longrightarrow>
         ?final (trackingCode t) = Some t)
      \<and> (\<forall>trackingData changed.
           trackCorreios world now (trackingCode t) = Inr trackingData
           \<and> hasNewEvents toISOString (events t) (res_events trackingData) = Inr changed \<longrightarrow>
         ?final (trackingCode t) =
           Some (if res_status trackingData \<noteq> currentStatus t \<or> changed
                 then writtenRow now t trackingData else t)
         \<and> (?final (trackingCode t) \<noteq> Some t
              \<longleftrightarrow> res_status trackingData \<noteq> currentStatus t \<or> changed)))
   \<and> (\<forall>code. code \<notin> trackingCode ` set trackings \<longrightarrow> ?final code = table0 code)"
    using each frame by blast
qed

subsection \<open>A sample pass\<close>

lemma trackCorreios_cong:
  "world code = world' code \<Longrightarrow> trackCorreios world now code = trackCorreios world' now code"
proof -
  assume "world code = world' code"
  then have "fetchTrackingData world code = fetchTrackingData world' code"
    by (intro ext) (simp add: fetchTrackingData_def)
  then show ?thesis by (simp add: trackCorreios_def lookup_def)
qed

lemma pending_lookup:
  "trackCorreios (returning pendingResponse) now code =
     Inr \<lparr>res_status = EM_TRANSITO, res_events = [toTrackingEvent pendingEvento],
          res_dtPrevista = None\<rparr>"
proof -
  have "determineStatus (descricao pendingEvento) = EM_TRANSITO"
    using determineStatus_unmatched [OF sample_plain_unmatched]
    by (simp add: pendingEvento_def sampleEvento_def)
  moreover have "trackCorreios (returning pendingResponse) now code =
     Inr \<lparr>res_status = determineStatus (descricao pendingEvento),
          res_events = map toTrackingEvent (pendingEvento # []),
          res_dtPrevista = dtPrevista (sampleObjeto None (Some [pendingEvento]))\<rparr>"
    by (rule trackCorreios_events [of _ _ pendingResponse _ "[]"])
       (simp_all add: sample_lookup_returns pendingResponse_def withObjeto_def sampleObjeto_def)
  ultimately show ?thesis by (simp add: sampleObjeto_def)
qed

lemma no_events_lookup:
  "trackCorreios (returning (withObjeto (sampleObjeto None (Some [])))) now code =
     Inr \<lparr>res_status = ETIQUETA_EMITIDA, res_events = [], res_dtPrevista = None\<rparr>"
  by (simp add: lookup_returned [OF sample_lookup_returns] trackingResult_def withObjeto_def
      sampleObjeto_def)

lemma stale_comparison:
  "hasNewEvents sampleISO [eventSemData] [event] = Inl (Error (js ''Invalid time value''))"
proof -
  have "sampleISO (date eventSemData) = None"
    by (simp add: eventSemData_def sampleISO_def js_def)
  then show ?thesis by (simp add: hasNewEvents_def createEventSignature_def)
qed

lemma pass_codes:
  "trackingCode passSkipped = js ''AA000000001BR''" "trackingCode passUpdated = js ''AA000000002BR''"
  "trackingCode passStale = js ''AA000000003BR''" "trackingCode passSame = js ''AA000000004BR''"
  by (simp_all add: passSkipped_def passUpdated_def passStale_def passSame_def)

lemma pass_codes_differ:
  "js ''AA000000001BR'' \<noteq> js ''AA000000002BR''" "js ''AA000000001BR'' \<noteq> js ''AA000000003BR''"
  "js ''AA000000001BR'' \<noteq> js ''AA000000004BR''" "js ''AA000000002BR'' \<noteq> js ''AA000000003BR''"
  "js ''AA000000002BR'' \<noteq> js ''AA000000004BR''" "js ''AA000000003BR'' \<noteq> js ''AA000000004BR''"
  "sampleCode \<noteq> js ''AA000000001BR''" "sampleCode \<noteq> js ''AA000000002BR''"
  "sampleCode \<noteq> js ''AA000000003BR''" "sampleCode \<noteq> js ''AA000000004BR''"
  by (simp_all add: js_def sampleCode_def)

lemma pass_rows:
  "distinct (map trackingCode passRecords)
   \<and> (\<forall>t \<in> set passRecords. passTable (trackingCode t) = Some t)"
  using pass_codes_differ
  by (simp add: passRecords_def passTable_def pass_codes del: distinct.simps)
     (auto simp: pass_codes)

lemma pass_lookups:
  "\<exists>e. trackCorreios passWorld now (trackingCode passSkipped) = Inl e"
  "trackCorreios passWorld now (trackingCode passUpdated) =
     Inr \<lparr>res_status = EM_TRANSITO, res_events = [toTrackingEvent pendingEvento],
          res_dtPrevista = None\<rparr>"
  "\<exists>event. trackCorreios passWorld now (trackingCode passStale) =
     Inr \<lparr>res_status = ERRO_CONSULTA, res_events = [event], res_dtPrevista = None\<rparr>"
  "trackCorreios passWorld now (trackingCode passSame) =
     Inr \<lparr>res_status = ETIQUETA_EMITIDA, res_events = [], res_dtPrevista = None\<rparr>"
proof -
  have w1: "passWorld (js ''AA000000001BR'') = answering 503 (js ''Service Unavailable'') (js ''AA000000001BR'')"
    and w2: "passWorld (js ''AA000000002BR'') = returning pendingResponse (js ''AA000000002BR'')"
    and w3: "passWorld (js ''AA000000003BR'') = answering 404 (js ''Not Found'') (js ''AA000000003BR'')"
    and w4: "passWorld (js ''AA000000004BR'') =
        returning (withObjeto (sampleObjeto None (Some []))) (js ''AA000000004BR'')"
    using pass_codes_differ by (simp_all add: passWorld_def)
  have "isTemporary (ClassifiedError m TEMPORARY None)" for m by simp
  then show "\<exists>e. trackCorreios passWorld now (trackingCode passSkipped) = Inl e"
    unfolding pass_codes
      trackCorreios_cong [of passWorld "js ''AA000000001BR''" "answering 503 (js ''Service Unavailable'')", OF w1]
    using lookup_503 [of "js ''Service Unavailable''" "js ''AA000000001BR''"]
    by (simp add: trackCorreios_throws)
  show "trackCorreios passWorld now (trackingCode passUpdated) =
     Inr \<lparr>res_status = EM_TRANSITO, res_events = [toTrackingEvent pendingEvento],
          res_dtPrevista = None\<rparr>"
    unfolding pass_codes
      trackCorreios_cong [of passWorld "js ''AA000000002BR''" "returning pendingResponse", OF w2]
    by (rule pending_lookup)
  show "\<exists>event. trackCorreios passWorld now (trackingCode passStale) =
     Inr \<lparr>res_status = ERRO_CONSULTA, res_events = [event], res_dtPrevista = None\<rparr>"
    unfolding pass_codes
      trackCorreios_cong [of passWorld "js ''AA000000003BR''" "answering 404 (js ''Not Found'')", OF w3]
    using lookup_404 [of "js ''Not Found''" "js ''AA000000003BR''"] lookupFailure_synthesized [of _ now]
    by (simp add: trackCorreios_def)
  show "trackCorreios passWorld now (trackingCode passSame) =
     Inr \<lparr>res_status = ETIQUETA_EMITIDA, res_events = [], res_dtPrevista = None\<rparr>"
    unfolding pass_codes
      trackCorreios_cong [of passWorld "js ''AA000000004BR''"
        "returning (withObjeto (sampleObjeto None (Some [])))", OF w4]
    by (rule no_events_lookup)
qed

lemma pass_fields:
  "events passSkipped = []" "events passUpdated = []" "events passStale = [eventSemData]"
  "events passSame = []" "currentStatus passSame = ETIQUETA_EMITIDA"
  "currentStatus passUpdated = POSTADO"
  by (simp_all add: passSkipped_def passUpdated_def passStale_def passSame_def sampleTracking_def)

lemma transit_not_posted: "EM_TRANSITO \<noteq> POSTADO"
  by (simp add: EM_TRANSITO_def POSTADO_def js_def)

theorem processTrackings_persistence_witness:
  "table (processTrackings sampleISO passWorld sampleNow passTable passRecords)
       (trackingCode passSkipped) = Some passSkipped
   \<and> table (processTrackings sampleISO passWorld sampleNow passTable passRecords)
       (trackingCode passUpdated) =
       Some (writtenRow sampleNow passUpdated
               \<lparr>res_status = EM_TRANSITO, res_events = [toTrackingEvent pendingEvento],
                res_dtPrevista = None\<rparr>)
   \<and> table (processTrackings sampleISO passWorld sampleNow passTable passRecords)
       (trackingCode passUpdated) \<noteq> Some passUpdated
   \<and> table (processTrackings sampleISO passWorld sampleNow passTable passRecords)
       (trackingCode passStale) = Some passStale
   \<and> table (processTrackings sampleISO passWorld sampleNow passTable passRecords)
       (trackingCode passSame) = Some passSame
   \<and> table (processTrackings sampleISO passWorld sampleNow passTable passRecords) sampleCode = None"
proof -
  let ?final = "table (processTrackings sampleISO passWorld sampleNow passTable passRecords)"
  let ?new = "\<lparr>res_status = EM_TRANSITO, res_events = [toTrackingEvent pendingEvento],
      res_dtPrevista = None\<rparr>"
  let ?none = "\<lparr>res_status = ETIQUETA_EMITIDA, res_events = [], res_dtPrevista = None\<rparr>"
  note t = processTrackings_persistence [of passRecords passTable passWorld sampleNow sampleISO,
      THEN mp, OF pass_rows]
  note rows = t [THEN conjunct1]
  note frame = t [THEN conjunct2]
  have members: "passSkipped \<in> set passRecords" "passUpdated \<in> set passRecords"
    "passStale \<in> set passRecords" "passSame \<in> set passRecords"
    by (simp_all add: passRecords_def)
  from pass_lookups(1) [of sampleNow] obtain e0
    where e0: "trackCorreios passWorld sampleNow (trackingCode passSkipped) = Inl e0"
    by blast
  have a: "?final (trackingCode passSkipped) = Some passSkipped"
    using rows [THEN bspec, OF members(1), THEN conjunct1, THEN spec, of e0] e0 by blast
  have hb: "trackCorreios passWorld sampleNow (trackingCode passUpdated) = Inr ?new
      \<and> hasNewEvents sampleISO (events passUpdated) (res_events ?new) = Inr True"
    by (simp add: pass_lookups(2) pass_fields hasNewEvents_def)
  have b: "?final (trackingCode passUpdated) = Some (writtenRow sampleNow passUpdated ?new)
      \<and> ?final (trackingCode passUpdated) \<noteq> Some passUpdated"
    using rows [THEN bspec, OF members(2), THEN conjunct2, THEN conjunct2, THEN spec, THEN spec,
        of ?new True] hb
    by auto
  from pass_lookups(3) [of sampleNow] obtain event where
    e: "trackCorreios passWorld sampleNow (trackingCode passStale) =
          Inr \<lparr>res_status = ERRO_CONSULTA, res_events = [event], res_dtPrevista = None\<rparr>"
    by blast
  have hc: "trackCorreios passWorld sampleNow (trackingCode passStale) =
          Inr \<lparr>res_status = ERRO_CONSULTA, res_events = [event], res_dtPrevista = None\<rparr>
      \<and> hasNewEvents sampleISO (events passStale)
          (res_events \<lparr>res_status = ERRO_CONSULTA, res_events = [event], res_dtPrevista = None\<rparr>) =
        Inl (Error (js ''Invalid time value''))"
    using e by (simp add: pass_fields stale_comparison)
  have c: "?final (trackingCode passStale) = Some passStale"
    using rows [THEN bspec, OF members(3), THEN conjunct2, THEN conjunct1, THEN spec, THEN spec,
        of "\<lparr>res_status = ERRO_CONSULTA, res_events = [event], res_dtPrevista = None\<rparr>"
           "Error (js ''Invalid time value'')"] hc
    by blast
  have hd: "trackCorreios passWorld sampleNow (trackingCode passSame) = Inr ?none
      \<and> hasNewEvents sampleISO (events passSame) (res_events ?none) = Inr False"
    by (simp add: pass_lookups(4) pass_fields hasNewEvents_def)
  have "res_status ?none = currentStatus passSame" by (simp add: pass_fields)
  then have d: "?final (trackingCode passSame) = Some passSame"
    using rows [THEN bspec, OF members(4), THEN conjunct2, THEN conjunct2, THEN spec, THEN spec,
        of ?none False] hd
    by auto
  have "sampleCode \<notin> trackingCode ` set passRecords"
    using pass_codes_differ by (auto simp: passRecords_def pass_codes)
  then have "?final sampleCode = passTable sampleCode"
    using frame [THEN spec, of sampleCode] by blast
  moreover have "passTable sampleCode = None"
    using pass_codes_differ by (simp add: passTable_def)
  ultimately have f: "?final sampleCode = None" by simp
  from a b c d f show ?thesis by blast
qed

text \<open>
  C7 as stated fails for a record whose stored event has a date that is not a date: the
  lookup returns a result and the new status differs from the record's, yet the comparison
  of the events throws before the update is requested, so the pass leaves the row as it
  was.
\<close>

theorem processTrackings_unparsable_date_counterexample:
  "trackCorreios (returning pendingResponse) sampleNow (trackingCode staleTracking) =
     Inr \<lparr>res_status = EM_TRANSITO, res_events = [toTrackingEvent pendingEvento],
          res_dtPrevista = None\<rparr>
   \<and> EM_TRANSITO \<noteq> currentStatus staleTracking
   \<and> table (processTrackings sampleISO (returning pendingResponse) sampleNow
        [trackingCode staleTracking \<mapsto> staleTracking] [staleTracking]) =
       [trackingCode staleTracking \<mapsto> staleTracking]"
proof -
  let ?new = "\<lparr>res_status = EM_TRANSITO, res_events = [toTrackingEvent pendingEvento],
      res_dtPrevista = None\<rparr>"
  have found: "trackCorreios (returning pendingResponse) sampleNow (trackingCode staleTracking) = Inr ?new"
    by (rule pending_lookup)
  have st: "currentStatus staleTracking = POSTADO" and ev: "events staleTracking = [eventSemData]"
    by (simp_all add: staleTracking_def sampleTracking_def)
  have cmp: "hasNewEvents sampleISO (events staleTracking) [toTrackingEvent pendingEvento] =
      Inl (Error (js ''Invalid time value''))"
    by (simp add: ev stale_comparison)
  have "table (processTrackings sampleISO (returning pendingResponse) sampleNow
        [trackingCode staleTracking \<mapsto> staleTracking] [staleTracking]) =
       [trackingCode staleTracking \<mapsto> staleTracking]"
    unfolding processTrackings_def
    by (simp add: found processRecord_def recordSuccess_def Let_def cmp recordFailure_keeps
        del: fun_upd_apply)
  with found st transit_not_posted show ?thesis by simp
qed

subsection \<open>The fields of the signature\<close>

lemma createEventSignature_fields:
  "createEventSignature toISOString event =
     (case signatureFields toISOString event of
        None \<Rightarrow> Inl (Error (js ''Invalid time value''))
      | Some parts \<Rightarrow> Inr (join (js ''|'') parts))"
  by (simp add: createEventSignature_def signatureFields_def split: option.splits)

text \<open>A joined list with one element singled out: what precedes it and what follows it do
  not depend on it, so changing that element alone changes the joined string.\<close>

lemma join_cons: "join sep (x # post) = x @ concat (map (\<lambda>q. sep @ q) post)"
  by (induction post arbitrary: x) simp_all

lemma join_one_field:
  "join sep (pre @ x # post) =
     concat (map (\<lambda>p. p @ sep) pre) @ x @ concat (map (\<lambda>q. sep @ q) post)"
proof (induction pre)
  case Nil
  then show ?case by (simp add: join_cons)
next
  case (Cons p pre)
  obtain z zs where z: "pre @ x # post = z # zs" by (cases "pre @ x # post") auto
  then have "join sep (p # pre @ x # post) = p @ sep @ join sep (pre @ x # post)" by simp
  then show ?case using Cons.IH by simp
qed

lemma join_differs:
  "x \<noteq> y \<Longrightarrow> join sep (pre @ x # post) \<noteq> join sep (pre @ y # post)"
  by (simp add: join_one_field)

lemma same_fields_signature:
  "sameSignatureFields toISOString a b \<Longrightarrow>
   createEventSignature toISOString a = createEventSignature toISOString b"
  by (simp add: sameSignatureFields_def createEventSignature_def split: option.splits)

lemma same_fields_signatures:
  "list_all2 (sameSignatureFields toISOString) xs ys \<Longrightarrow>
   eventSignatures toISOString xs = eventSignatures toISOString ys"
proof (induction rule: list_all2_induct)
  case Nil
  then show ?case by simp
next
  case (Cons x xs y ys)
  have "createEventSignature toISOString x = createEventSignature toISOString y"
    using Cons.hyps(1) by (rule same_fields_signature)
  then show ?case using Cons.IH by (simp split: sum.splits)
qed

lemma eventSignatures_return:
  "\<forall>e \<in> set xs. toISOString (date e) \<noteq> None \<Longrightarrow> \<exists>ss. eventSignatures toISOString xs = Inr ss"
  by (induction xs) (auto simp: createEventSignature_def)

lemma same_fields_no_news:
  assumes same: "list_all2 (sameSignatureFields toISOString) xs ys"
  shows "hasNewEvents toISOString xs ys \<noteq> Inr True"
    and "\<forall>e \<in> set xs. toISOString (date e) \<noteq> None \<Longrightarrow> hasNewEvents toISOString xs ys = Inr False"
proof -
  have len: "length xs = length ys" using same by (rule list_all2_lengthD)
  have sigs: "eventSignatures toISOString xs = eventSignatures toISOString ys"
    using same by (rule same_fields_signatures)
  have ret: "hasNewEvents toISOString xs ys = Inr False"
    if "eventSignatures toISOString xs = Inr ss" for ss
    using hasNewEvents_sigs [of xs ys toISOString ss ss] len sigs that by simp
  show "hasNewEvents toISOString xs ys \<noteq> Inr True"
  proof (cases "eventSignatures toISOString xs")
    case (Inl e)
    then have "xs \<noteq> []" by auto
    then show ?thesis using Inl len by (simp add: hasNewEvents_def)
  next
    case (Inr ss)
    then show ?thesis using ret by simp
  qed
  show "hasNewEvents toISOString xs ys = Inr False" if "\<forall>e \<in> set xs. toISOString (date e) \<noteq> None"
    using eventSignatures_return [OF that] ret by blast
qed

lemma no_news_no_write:
  assumes "hasNewEvents toISOString (events tracking) (res_events trackingData) \<noteq> Inr True"
    and "res_status trackingData = currentStatus tracking"
  shows "table (processRecord toISOString now (Inr trackingData) tracking st) = table st"
    and "dispatched (processRecord toISOString now (Inr trackingData) tracking st) = dispatched st"
  using assms
  by (cases "hasNewEvents toISOString (events tracking) (res_events trackingData)";
      simp add: processRecord_def recordSuccess_def Let_def recordFailure_keeps)+

text \<open>
  C10. The signature of an event is its seven fields joined by \<open>|\<close>, in this order: the
  trimmed description, the date as an ISO string, and the trimmed location, detail, unit
  type, origin unit and destination unit (empty when absent); an event whose date does not
  normalise has no signature, the call throwing. Each of the seven fields enters the
  signature: two events whose fields differ in one place only have different signatures.
  Two events that agree on the seven fields have the same signature, and the event's status
  copy and its unit address do not enter it. So two lists whose events agree pairwise on
  the seven fields are never reported to hold new information, and are reported to hold
  none when the dates normalise; and with an unchanged status the pass neither writes the
  row nor dispatches a notification.
\<close>

theorem signature_seven_fields:
  "createEventSignature toISOString a =
     (case signatureFields toISOString a of
        None \<Rightarrow> Inl (Error (js ''Invalid time value''))
      | Some parts \<Rightarrow> Inr (join (js ''|'') parts))
   \<and> (signatureFields toISOString a = Some (pre @ x # post)
        \<and> signatureFields toISOString b = Some (pre @ y # post) \<and> x \<noteq> y \<longrightarrow>
        createEventSignature toISOString a \<noteq> createEventSignature toISOString b)
   \<and> (sameSignatureFields toISOString a b \<longrightarrow>
        createEventSignature toISOString a = createEventSignature toISOString b)
   \<and> createEventSignature toISOString (a\<lparr>status := s, unitAddress := u\<rparr>) =
       createEventSignature toISOString a
   \<and> (list_all2 (sameSignatureFields toISOString) oldEvents newEvents \<longrightarrow>
        hasNewEvents toISOString oldEvents newEvents \<noteq> Inr True
        \<and> ((\<forall>e \<in> set oldEvents. toISOString (date e) \<noteq> None) \<longrightarrow>
             hasNewEvents toISOString oldEvents newEvents = Inr False))
   \<and> (list_all2 (sameSignatureFields toISOString) (events tracking) (res_events trackingData)
        \<and> res_status trackingData = currentStatus tracking \<longrightarrow>
        table (processRecord toISOString now (Inr trackingData) tracking st) = table st
        \<and> dispatched (processRecord toISOString now (Inr trackingData) tracking st) = dispatched st)"
proof (intro conjI impI)
  show "createEventSignature toISOString a =
     (case signatureFields toISOString a of
        None \<Rightarrow> Inl (Error (js ''Invalid time value''))
      | Some parts \<Rightarrow> Inr (join (js ''|'') parts))"
    by (rule createEventSignature_fields)
next
  assume "signatureFields toISOString a = Some (pre @ x # post)
        \<and> signatureFields toISOString b = Some (pre @ y # post) \<and> x \<noteq> y"
  then show "createEventSignature toISOString a \<noteq> createEventSignature toISOString b"
    by (simp add: createEventSignature_fields join_differs)
next
  assume "sameSignatureFields toISOString a b"
  then show "createEventSignature toISOString a = createEventSignature toISOString b"
    by (rule same_fields_signature)
next
  show "createEventSignature toISOString (a\<lparr>status := s, unitAddress := u\<rparr>) =
       createEventSignature toISOString a"
    by (simp add: createEventSignature_def split: option.splits)
next
  assume "list_all2 (sameSignatureFields toISOString) oldEvents newEvents"
  then show "hasNewEvents toISOString oldEvents newEvents \<noteq> Inr True"
    by (rule same_fields_no_news(1))
next
  assume "list_all2 (sameSignatureFields toISOString) oldEvents newEvents"
    and "\<forall>e \<in> set oldEvents. toISOString (date e) \<noteq> None"
  then show "hasNewEvents toISOString oldEvents newEvents = Inr False"
    by (rule same_fields_no_news(2))
next
  assume a: "list_all2 (sameSignatureFields toISOString) (events tracking) (res_events trackingData)
        \<and> res_status trackingData = currentStatus tracking"
  then have n: "hasNewEvents toISOString (events tracking) (res_events trackingData) \<noteq> Inr True"
    by (simp add: same_fields_no_news(1))
  from a n show "table (processRecord toISOString now (Inr trackingData) tracking st) = table st"
    by (simp add: no_news_no_write(1))
  from a n show "dispatched (processRecord toISOString now (Inr trackingData) tracking st) = dispatched st"
    by (simp add: no_news_no_write(2))
qed

text \<open>Two stored events and what a later lookup gives for them: the same seven fields, with
  another status copy and a unit address; and the first event with a detail added.\<close>

lemma sample_same_fields:
  "list_all2 (sameSignatureFields sampleISO) [eventTransito, eventPostado]
     [eventTransito\<lparr>status := js ''em transito''\<rparr>,
      eventPostado\<lparr>status := js ''postado'',
                   unitAddress := Some \<lparr>cep = Some (js ''80000000''), logradouro = None,
                     numero = None, bairro = None, cidade = Some (js ''Curitiba''),
                     uf = Some (js ''PR'')\<rparr>\<rparr>]"
  by (simp add: sameSignatureFields_def)

lemma sample_dates_normalise:
  "\<forall>e \<in> set [eventTransito, eventPostado]. sampleISO (date e) \<noteq> None"
  by (simp add: sampleISO_def eventPostado_def eventTransito_def js_def)

lemma sample_detail_fields:
  "signatureFields sampleISO eventPostado =
     Some ([trim (description eventPostado), js ''2024-01-01T10:00:00.000Z'',
            trim (location eventPostado)] @ [] # [[], [], []])"
  "signatureFields sampleISO (eventPostado\<lparr>detail := Some (js ''Saiu'')\<rparr>) =
     Some ([trim (description eventPostado), js ''2024-01-01T10:00:00.000Z'',
            trim (location eventPostado)] @ js ''Saiu'' # [[], [], []])"
  "[] \<noteq> js ''Saiu''"
proof -
  have d: "sampleISO (date eventPostado) = Some (js ''2024-01-01T10:00:00.000Z'')"
    by (simp add: sampleISO_def eventPostado_def js_def)
  have o: "detail eventPostado = None" "unitType eventPostado = None"
    "originUnit eventPostado = None" "destinationUnit eventPostado = None"
    by (simp_all add: eventPostado_def)
  have e: "trim [] = []" by (simp add: trim_def)
  have t: "trim (js ''Saiu'') = js ''Saiu''" by (simp add: trim_def isWhiteSpace_def js_def)
  show "signatureFields sampleISO eventPostado =
     Some ([trim (description eventPostado), js ''2024-01-01T10:00:00.000Z'',
            trim (location eventPostado)] @ [] # [[], [], []])"
    by (simp add: signatureFields_def d o e)
  show "signatureFields sampleISO (eventPostado\<lparr>detail := Some (js ''Saiu'')\<rparr>) =
     Some ([trim (description eventPostado), js ''2024-01-01T10:00:00.000Z'',
            trim (location eventPostado)] @ js ''Saiu'' # [[], [], []])"
    by (simp add: signatureFields_def d o e t)
  show "[] \<noteq> js ''Saiu''" by (simp add: js_def)
qed

theorem signature_seven_fields_witness:
  "createEventSignature sampleISO eventPostado
     \<noteq> createEventSignature sampleISO (eventPostado\<lparr>detail := Some (js ''Saiu'')\<rparr>)
   \<and> createEventSignature sampleISO eventTransito
       = createEventSignature sampleISO (eventTransito\<lparr>status := js ''em transito''\<rparr>)
   \<and> hasNewEvents sampleISO [eventTransito, eventPostado]
       [eventTransito\<lparr>status := js ''em transito''\<rparr>,
        eventPostado\<lparr>status := js ''postado'',
                     unitAddress := Some \<lparr>cep = Some (js ''80000000''), logradouro = None,
                       numero = None, bairro = None, cidade = Some (js ''Curitiba''),
                       uf = Some (js ''PR'')\<rparr>\<rparr>] = Inr False
   \<and> table (processRecord sampleISO sampleNow
        (Inr \<lparr>res_status = POSTADO,
              res_events =
                [eventTransito\<lparr>status := js ''em transito''\<rparr>,
                 eventPostado\<lparr>status := js ''postado'',
                     unitAddress := Some \<lparr>cep = Some (js ''80000000''), logradouro = None,
                       numero = None, bairro = None, cidade = Some (js ''Curitiba''),
                       uf = Some (js ''PR'')\<rparr>\<rparr>],
              res_dtPrevista = None\<rparr>)
        (sampleTracking\<lparr>events := [eventTransito, eventPostado]\<rparr>) sampleStart) = table sampleStart
   \<and> dispatched (processRecord sampleISO sampleNow
        (Inr \<lparr>res_status = POSTADO,
              res_events =
                [eventTransito\<lparr>status := js ''em transito''\<rparr>,
                 eventPostado\<lparr>status := js ''postado'',
                     unitAddress := Some \<lparr>cep = Some (js ''80000000''), logradouro = None,
                       numero = None, bairro = None, cidade = Some (js ''Curitiba''),
                       uf = Some (js ''PR'')\<rparr>\<rparr>],
              res_dtPrevista = None\<rparr>)
        (sampleTracking\<lparr>events := [eventTransito, eventPostado]\<rparr>) sampleStart) = []"
proof -
  let ?c = "eventPostado\<lparr>detail := Some (js ''Saiu'')\<rparr>"
  let ?old = "[eventTransito, eventPostado]"
  let ?new = "[eventTransito\<lparr>status := js ''em transito''\<rparr>,
      eventPostado\<lparr>status := js ''postado'',
                   unitAddress := Some \<lparr>cep = Some (js ''80000000''), logradouro = None,
                     numero = None, bairro = None, cidade = Some (js ''Curitiba''),
                     uf = Some (js ''PR'')\<rparr>\<rparr>]"
  let ?t = "sampleTracking\<lparr>events := ?old\<rparr>"
  let ?d = "\<lparr>res_status = POSTADO, res_events = ?new, res_dtPrevista = None\<rparr>"
  note t = signature_seven_fields [of sampleISO eventPostado
      "[trim (description eventPostado), js ''2024-01-01T10:00:00.000Z'', trim (location eventPostado)]"
      "[]" "[[], [], []]" ?c "js ''Saiu''" _ _ ?old ?new ?t ?d sampleNow sampleStart]
  have a: "createEventSignature sampleISO eventPostado \<noteq> createEventSignature sampleISO ?c"
    using t [THEN conjunct2, THEN conjunct1] sample_detail_fields by blast
  have "sameSignatureFields sampleISO eventTransito (eventTransito\<lparr>status := js ''em transito''\<rparr>)"
    by (simp add: sameSignatureFields_def)
  then have e: "createEventSignature sampleISO eventTransito
       = createEventSignature sampleISO (eventTransito\<lparr>status := js ''em transito''\<rparr>)"
    using signature_seven_fields [of sampleISO eventTransito _ _ _
        "eventTransito\<lparr>status := js ''em transito''\<rparr>",
        THEN conjunct2, THEN conjunct2, THEN conjunct1]
    by blast
  have b: "hasNewEvents sampleISO ?old ?new = Inr False"
    using t [THEN conjunct2, THEN conjunct2, THEN conjunct2, THEN conjunct2,
        THEN conjunct1] sample_same_fields sample_dates_normalise
    by blast
  have q: "list_all2 (sameSignatureFields sampleISO) (events ?t) (res_events ?d)
        \<and> res_status ?d = currentStatus ?t"
    using sample_same_fields by (simp add: sampleTracking_def)
  have c: "table (processRecord sampleISO sampleNow (Inr ?d) ?t sampleStart) = table sampleStart
      \<and> dispatched (processRecord sampleISO sampleNow (Inr ?d) ?t sampleStart) = dispatched sampleStart"
    using t [THEN conjunct2, THEN conjunct2, THEN conjunct2, THEN conjunct2,
        THEN conjunct2] q
    by blast
  have "dispatched sampleStart = []" by (simp add: sampleStart_def)
  with a e b c show ?thesis by simp
qed

subsection \<open>The consecutive-failure counter\<close>

lemma trackCorreios_only_temporary:
  "trackCorreios world now code = Inl e \<Longrightarrow> isTemporary e"
  by (simp add: trackCorreios_throws)

text \<open>The steps of the counter: a temporary error leaves it, any other error adds one and
  waits once the threshold is reached, and a returned lookup resets it.\<close>

lemma recordFailure_counter:
  "isTemporary e \<Longrightarrow> consecutiveFailures (recordFailure e st) = consecutiveFailures st
     \<and> waited (recordFailure e st) = waited st"
  "\<not> isTemporary e \<Longrightarrow> consecutiveFailures (recordFailure e st) = consecutiveFailures st + 1
     \<and> waited (recordFailure e st) =
         waited st @ (if consecutiveFailures st + 1 \<ge> 3
                      then [60000 * min (consecutiveFailures st + 1 - 3 + 1) 5] else [])"
  by (simp_all add: recordFailure_def Let_def MAX_CONSECUTIVE_FAILURES_def FAILURE_WAIT_TIME_def)

lemma recordSuccess_counter:
  "consecutiveFailures (recordSuccess toISOString now tracking trackingData st) \<le> 1
   \<and> waited (recordSuccess toISOString now tracking trackingData st) = waited st"
proof -
  have f: "consecutiveFailures (recordFailure e s) \<le> 1 \<and> waited (recordFailure e s) = waited s"
    if "consecutiveFailures s = 0" for e s
    using that by (cases "isTemporary e") (simp_all add: recordFailure_counter)
  show ?thesis
    unfolding recordSuccess_def Let_def
    by (auto split: sum.splits prod.splits intro: f [THEN conjunct1] simp: f [THEN conjunct2])
qed

lemma processRecord_counter:
  assumes "\<And>e. found = Inl e \<Longrightarrow> isTemporary e" and "consecutiveFailures st \<le> 1"
  shows "consecutiveFailures (processRecord toISOString now found tracking st) \<le> 1
     \<and> waited (processRecord toISOString now found tracking st) = waited st"
proof (cases found)
  case (Inl e)
  then show ?thesis using assms by (simp add: processRecord_def recordFailure_counter)
next
  case (Inr trackingData)
  then show ?thesis by (simp add: processRecord_def recordSuccess_counter)
qed

lemma processLoop_counter:
  "consecutiveFailures st \<le> 1 \<Longrightarrow>
   consecutiveFailures (processLoop toISOString world now trackings st) \<le> 1
   \<and> waited (processLoop toISOString world now trackings st) = waited st"
proof (induction trackings arbitrary: st)
  case Nil
  then show ?case by simp
next
  case (Cons tracking trackings)
  let ?st = "processRecord toISOString now (trackCorreios world now (trackingCode tracking)) tracking st"
  have "consecutiveFailures ?st \<le> 1 \<and> waited ?st = waited st"
    using Cons.prems by (intro processRecord_counter) (auto dest: trackCorreios_only_temporary)
  with Cons.IH [of ?st] show ?case by simp
qed

text \<open>In every pass the counter stays below the threshold and the pass never waits:
  whatever fails after the lookup fails after the counter has been reset.\<close>

lemma processTrackings_never_waits:
  "waited (processTrackings toISOString world now table0 trackings) = []
   \<and> consecutiveFailures (processTrackings toISOString world now table0 trackings) \<le> 1"
  using processLoop_counter [of
      "\<lparr>table = table0, dispatched = [], consecutiveFailures = 0, successCount = 0,
        errorCount = 0, updatedCount = 0, skippedCount = 0, waited = []\<rparr>"
      toISOString world now trackings]
  by (simp add: processTrackings_def)

lemma trackCorreios_404:
  "\<exists>event. trackCorreios (answering 404 body) now code =
     Inr \<lparr>res_status = ERRO_CONSULTA, res_events = [event], res_dtPrevista = None\<rparr>"
  using lookup_404 [of body code] lookupFailure_synthesized [of _ now]
  by (simp add: trackCorreios_def)

lemma sample_status_differs: "ERRO_CONSULTA \<noteq> POSTADO"
  by (simp add: ERRO_CONSULTA_def POSTADO_def js_def)

text \<open>A record without events whose lookup gives the lookup-error result and whose row
  is gone: the update throws and the record counts as a failure, the counter being 1.\<close>

lemma processRecord_update_fails:
  assumes "found = Inr \<lparr>res_status = ERRO_CONSULTA, res_events = [event], res_dtPrevista = None\<rparr>"
    and "events tracking = []" and "currentStatus tracking = POSTADO"
    and "table st (trackingCode tracking) = None"
  shows "processRecord toISOString now found tracking st =
     st\<lparr>successCount := successCount st + 1, consecutiveFailures := 1,
        errorCount := errorCount st + 1\<rparr>"
  using assms sample_status_differs
  by (simp add: processRecord_def recordSuccess_def hasNewEvents_def execute_def
      findByTrackingCode_def recordFailure_def Let_def MAX_CONSECUTIVE_FAILURES_def)

text \<open>
  C8 at a failing input: a pass over four pending records, each lookup failing with HTTP
  404 (PERMANENT) and each update then throwing because \<open>findByTrackingCode\<close> finds no
  row. Each lookup counts as a success, four records in a row count as errors, yet the
  counter ends at 1 and the pass has not waited.
\<close>

theorem processTrackings_four_failures_no_wait:
  "successCount (processTrackings sampleISO (answering 404 (js ''Not Found'')) sampleNow Map.empty sampleBatch) = 4
   \<and> errorCount (processTrackings sampleISO (answering 404 (js ''Not Found'')) sampleNow Map.empty sampleBatch) = 4
   \<and> consecutiveFailures
        (processTrackings sampleISO (answering 404 (js ''Not Found'')) sampleNow Map.empty sampleBatch) = 1
   \<and> waited (processTrackings sampleISO (answering 404 (js ''Not Found'')) sampleNow Map.empty sampleBatch) = []"
proof -
  have step: "processRecord sampleISO sampleNow
        (trackCorreios (answering 404 (js ''Not Found'')) sampleNow c)
        (sampleTracking\<lparr>trackingCode := c, events := []\<rparr>) st =
      st\<lparr>successCount := successCount st + 1, consecutiveFailures := 1,
         errorCount := errorCount st + 1\<rparr>"
    if "table st = Map.empty" for c st
  proof -
    from trackCorreios_404 [of "js ''Not Found''" sampleNow c] obtain event
      where "trackCorreios (answering 404 (js ''Not Found'')) sampleNow c =
        Inr \<lparr>res_status = ERRO_CONSULTA, res_events = [event], res_dtPrevista = None\<rparr>" by blast
    then show ?thesis
      using that by (intro processRecord_update_fails) (simp_all add: sampleTracking_def)
  qed
  show ?thesis
    by (simp add: processTrackings_def sampleBatch_def step)
qed

subsection \<open>The notification decision\<close>

text \<open>
  C6. \<open>publish\<close> dispatches nothing for an event whose delivery channel is
  pickup-in-point, whatever its status; nothing for an event whose new status is one of
  the seven silent statuses; and for every other event it calls \<open>sendTrackingEmail\<close> once,
  with that event.
\<close>

theorem publish_policy:
  "(ev_deliveryChannel event = PICKUP_IN_POINT \<longrightarrow> publish event = [])
   \<and> (newStatus event \<in> set SILENT_STATUSES \<longrightarrow> publish event = [])
   \<and> (ev_deliveryChannel event \<noteq> PICKUP_IN_POINT \<and> newStatus event \<notin> set SILENT_STATUSES
        \<longrightarrow> publish event = [event])
   \<and> set SILENT_STATUSES =
        {DESCONSIDERAR_INFORMACAO, OBJETO_SERA_DEVOLVIDO, ETIQUETA_EXPIRADA, ENTREGUE_REMETENTE,
         SUSPENSAO_ENTREGA, OBJETO_NAO_CHEGOU_UNIDADE, CARTEIRO_SAIU_COLETA}"
  by (simp add: publish_def SILENT_STATUSES_def)

lemma sample_channels: "DELIVERY \<noteq> PICKUP_IN_POINT"
  by (simp add: DELIVERY_def PICKUP_IN_POINT_def js_def)

lemma ENTREGUE_not_silent: "ENTREGUE \<notin> set SILENT_STATUSES"
  by (simp add: SILENT_STATUSES_def ENTREGUE_def DESCONSIDERAR_INFORMACAO_def
      OBJETO_SERA_DEVOLVIDO_def ETIQUETA_EXPIRADA_def ENTREGUE_REMETENTE_def SUSPENSAO_ENTREGA_def
      OBJETO_NAO_CHEGOU_UNIDADE_def CARTEIRO_SAIU_COLETA_def js_def)

theorem publish_policy_witness:
  "publish (sampleChanged\<lparr>ev_deliveryChannel := PICKUP_IN_POINT\<rparr>) = []
   \<and> publish (sampleChanged\<lparr>newStatus := ETIQUETA_EXPIRADA\<rparr>) = []
   \<and> publish sampleChanged = [sampleChanged]"
  using publish_policy [of "sampleChanged\<lparr>ev_deliveryChannel := PICKUP_IN_POINT\<rparr>"]
    publish_policy [of "sampleChanged\<lparr>newStatus := ETIQUETA_EXPIRADA\<rparr>"]
    publish_policy [of sampleChanged] sample_channels ENTREGUE_not_silent
  by (simp add: sampleChanged_def SILENT_STATUSES_def)

subsection \<open>Single flight of the token acquisition\<close>

lemma getValidToken_cache:
  "tokenCache (snd (getValidToken env t s)) = tokenCache s"
  by (simp add: getValidToken_def awaitOrGenerate_def generateNewToken_start_def Let_def
      split: option.splits)

lemma getValidToken_in_flight:
  "tokenPromise s = Some p \<Longrightarrow> \<not> cacheValid s t \<Longrightarrow> getValidToken env t s = (Awaits p, s)"
  by (auto simp: getValidToken_def awaitOrGenerate_def cacheValid_def split: option.splits)

lemma getValidToken_starts:
  "tokenPromise s = None \<Longrightarrow> \<not> cacheValid s t \<Longrightarrow>
   getValidToken env t s =
     (Awaits (promisesCreated s),
      s\<lparr>tokenPromise := Some (promisesCreated s), promisesCreated := promisesCreated s + 1,
        generations := generations s + 1,
        authRequests := authRequests s + (if credentialsConfigured env then 1 else 0)\<rparr>)"
  by (auto simp: getValidToken_def awaitOrGenerate_def generateNewToken_start_def cacheValid_def
      Let_def split: option.splits)

lemma callers_in_flight:
  "tokenPromise s = Some p \<Longrightarrow> \<forall>t \<in> set ts. \<not> cacheValid s t \<Longrightarrow>
   callers env ts s = (replicate (length ts) (Awaits p), s)"
  by (induction ts) (simp_all add: getValidToken_in_flight)

text \<open>Once the acquisition has filled the cache and its \<open>finally\<close> callback has run,
  a caller within the hour is answered from the cache and nothing is started.\<close>

lemma getValidToken_cached:
  "t < t0 + TOKEN_EXPIRATION_MS \<Longrightarrow>
   getValidToken env t (finallyClear (generateNewToken_resolve t0 tok s)) =
     (FromCache tok, finallyClear (generateNewToken_resolve t0 tok s))"
  by (simp add: getValidToken_def finallyClear_def generateNewToken_resolve_def)

text \<open>
  C2 (as amended). Callers of \<open>getValidToken\<close> that arrive during a cache miss, one after
  another with the acquisition still in flight, start exactly one acquisition between
  them: the first starts it and every later one is handed that same pending promise.
  The acquisition sends exactly one request to the authentication endpoint when the
  three credentials are configured, and none when one is missing. Callers that arrive
  with an acquisition already in flight start nothing and are handed its promise.
\<close>

theorem getValidToken_single_flight:
  "(tokenPromise s = None \<and> ts \<noteq> [] \<and> (\<forall>t \<in> set ts. \<not> cacheValid s t) \<longrightarrow>
      generations (snd (callers env ts s)) = generations s + 1
      \<and> authRequests (snd (callers env ts s)) =
          authRequests s + (if credentialsConfigured env then 1 else 0)
      \<and> fst (callers env ts s) = replicate (length ts) (Awaits (promisesCreated s)))
   \<and> (tokenPromise s = Some p \<and> (\<forall>t \<in> set ts. \<not> cacheValid s t) \<longrightarrow>
      callers env ts s = (replicate (length ts) (Awaits p), s))"
proof (intro conjI impI)
  assume a: "tokenPromise s = None \<and> ts \<noteq> [] \<and> (\<forall>t \<in> set ts. \<not> cacheValid s t)"
  then obtain t rest where ts: "ts = t # rest" by (cases ts) auto
  let ?s' = "s\<lparr>tokenPromise := Some (promisesCreated s), promisesCreated := promisesCreated s + 1,
        generations := generations s + 1,
        authRequests := authRequests s + (if credentialsConfigured env then 1 else 0)\<rparr>"
  have first: "getValidToken env t s = (Awaits (promisesCreated s), ?s')"
    using a ts by (simp add: getValidToken_starts)
  have "\<forall>u \<in> set rest. \<not> cacheValid ?s' u" using a ts by (simp add: cacheValid_def)
  then have rest: "callers env rest ?s' = (replicate (length rest) (Awaits (promisesCreated s)), ?s')"
    by (intro callers_in_flight) simp_all
  have all: "callers env ts s = (replicate (length ts) (Awaits (promisesCreated s)), ?s')"
    using first rest ts by simp
  show "generations (snd (callers env ts s)) = generations s + 1" by (simp add: all)
  show "authRequests (snd (callers env ts s)) =
          authRequests s + (if credentialsConfigured env then 1 else 0)" by (simp add: all)
  show "fst (callers env ts s) = replicate (length ts) (Awaits (promisesCreated s))" by (simp add: all)
next
  assume "tokenPromise s = Some p \<and> (\<forall>t \<in> set ts. \<not> cacheValid s t)"
  then show "callers env ts s = (replicate (length ts) (Awaits p), s)"
    by (simp add: callers_in_flight)
qed

theorem getValidToken_single_flight_witness:
  "authRequests (snd (callers sampleCredentials [1000, 1001, 1002] freshService)) = 1
   \<and> fst (callers sampleCredentials [1000, 1001, 1002] freshService) = [Awaits 0, Awaits 0, Awaits 0]
   \<and> callers sampleCredentials [1003, 1004] (freshService\<lparr>tokenPromise := Some 7\<rparr>) =
       ([Awaits 7, Awaits 7], freshService\<lparr>tokenPromise := Some 7\<rparr>)"
proof -
  have c: "credentialsConfigured sampleCredentials"
    by (simp add: credentialsConfigured_def sampleCredentials_def js_def)
  have m: "\<forall>t \<in> set [1000, 1001, 1002]. \<not> cacheValid freshService t"
    "\<forall>t \<in> set [1003, 1004]. \<not> cacheValid (freshService\<lparr>tokenPromise := Some 7\<rparr>) t"
    by (simp_all add: cacheValid_def freshService_def)
  have f: "tokenPromise freshService = None" "authRequests freshService = 0"
    "promisesCreated freshService = 0"
    by (simp_all add: freshService_def)
  have a: "authRequests (snd (callers sampleCredentials [1000, 1001, 1002] freshService)) = 1
      \<and> fst (callers sampleCredentials [1000, 1001, 1002] freshService) = [Awaits 0, Awaits 0, Awaits 0]"
    using getValidToken_single_flight [of freshService "[1000, 1001, 1002]" sampleCredentials,
        THEN conjunct1] c m(1) f
    by (simp add: numeral_3_eq_3)
  have b: "callers sampleCredentials [1003, 1004] (freshService\<lparr>tokenPromise := Some 7\<rparr>) =
       ([Awaits 7, Awaits 7], freshService\<lparr>tokenPromise := Some 7\<rparr>)"
    using getValidToken_single_flight [of "freshService\<lparr>tokenPromise := Some 7\<rparr>" "[1003, 1004]"
        sampleCredentials 7, THEN conjunct2] m(2)
    by (simp add: numeral_2_eq_2)
  from a b show ?thesis by simp
qed

text \<open>
  C2 as stated fails when a credential is missing: two callers arrive during a cache
  miss, one acquisition is started, and no request reaches the authentication endpoint.
\<close>

theorem getValidToken_unconfigured_counterexample:
  "\<not> cacheValid freshService 1000 \<and> \<not> cacheValid freshService 1001
   \<and> authRequests (snd (callers \<lparr>CORREIOS_API_KEY = None, CORREIOS_USERNAME = Some (js ''user''),
         CORREIOS_POSTAL_CARD = Some (js ''0067599079'')\<rparr> [1000, 1001] freshService)) \<noteq> 1"
  by (simp add: cacheValid_def freshService_def getValidToken_def awaitOrGenerate_def
      generateNewToken_start_def credentialsConfigured_def Let_def)


end
